theory Spec2Isabelle
  imports Main
begin

section \<open>Values of the API responses and Python's operations on them\<close>

text \<open>
  The Google API client hands back parsed JSON: dictionaries, lists, strings, integers,
  booleans and \<open>None\<close>. A dictionary is an association list read with \<open>map_of\<close>
  (one binding per key). Floating point numbers do not occur in the fields the code
  reads and are left out.
\<close>

datatype json =
    JNull
  | JBool bool
  | JInt int
  | JStr string
  | JList "json list"
  | JObj "(string \<times> json) list"

text \<open>
  The exceptions the code can meet: Python's \<open>KeyError\<close> (with the missing key),
  \<open>TypeError\<close>, \<open>IndexError\<close>, the \<open>RuntimeError\<close> the resolvers raise
  themselves (with its message), whatever \<open>request.execute()\<close> raises
  (\<open>HttpError\<close> with its text) and whatever polars raises (\<open>PolarsError\<close>).
\<close>

datatype error =
    KeyError string
  | TypeError
  | IndexError
  | RuntimeError string
  | HttpError string
  | PolarsError string

definition bindE :: "'e + 'a \<Rightarrow> ('a \<Rightarrow> 'e + 'b) \<Rightarrow> 'e + 'b" where
  "bindE m f = (case m of Inl e \<Rightarrow> Inl e | Inr x \<Rightarrow> f x)"

text \<open>\<open>v[k]\<close> for a string key: only a dictionary can be subscripted by a string.\<close>

fun py_getitem :: "json \<Rightarrow> string \<Rightarrow> error + json" where
  "py_getitem (JObj kvs) k =
     (case map_of kvs k of None \<Rightarrow> Inl (KeyError k) | Some v \<Rightarrow> Inr v)"
| "py_getitem v k = Inl TypeError"

text \<open>\<open>v[i]\<close> for an index \<open>i \<ge> 0\<close> (the code only writes \<open>[0]\<close>).\<close>

fun py_index :: "json \<Rightarrow> nat \<Rightarrow> error + json" where
  "py_index (JList xs) i = (if i < length xs then Inr (xs ! i) else Inl IndexError)"
| "py_index (JStr s) i = (if i < length s then Inr (JStr [s ! i]) else Inl IndexError)"
| "py_index (JObj kvs) i = Inl (KeyError ''0'')"
| "py_index v i = Inl TypeError"

fun py_len :: "json \<Rightarrow> error + nat" where
  "py_len (JList xs) = Inr (length xs)"
| "py_len (JStr s) = Inr (length s)"
| "py_len (JObj kvs) = Inr (length kvs)"
| "py_len v = Inl TypeError"

text \<open>What a \<open>for\<close> loop over the value visits: a dictionary yields its keys, a string
  its characters.\<close>

fun py_iter :: "json \<Rightarrow> error + json list" where
  "py_iter (JList xs) = Inr xs"
| "py_iter (JObj kvs) = Inr (map (\<lambda>kv. JStr (fst kv)) kvs)"
| "py_iter (JStr s) = Inr (map (\<lambda>c. JStr [c]) s)"
| "py_iter v = Inl TypeError"

section \<open>The API client\<close>

text \<open>
  The client built by \<open>googleapiclient.discovery.build\<close> is outside the repository.
  It is a parameter of the model: \<open>list_request rs kwargs\<close> is the request object
  \<open>api.rs().list(**kwargs)\<close>, \<open>execute\<close> runs a request and returns the response
  or raises, \<open>list_next rs request response\<close> is \<open>api.rs().list_next(request,
  response)\<close>: the request for the next page, or \<open>None\<close>. Requests are opaque
  (the type \<open>'r\<close>).
\<close>

datatype resource = CommentThreads | Channels | PlaylistItems | Videos

record 'r api =
  list_request :: "resource \<Rightarrow> (string \<times> json) list \<Rightarrow> 'r"
  execute :: "'r \<Rightarrow> error + json"
  list_next :: "resource \<Rightarrow> 'r \<Rightarrow> json \<Rightarrow> error + 'r option"

text \<open>
  What a call does besides returning: the requests it executes, what it prints
  (\<open>print(str(e))\<close> and \<open>print(traceback.format_exc())\<close>) and its
  \<open>sleep(n)\<close> calls, in the order they happen.
\<close>

datatype 'r effect = Execute 'r | PrintStr error | PrintTraceback error | Sleep nat

section \<open>Video.comment\_threads\<close>

text \<open>The \<open>for item in response["items"]\<close> loop. The list \<open>comment_threads\<close> is
  appended to in place, so what was appended before an exception stays.\<close>

fun comment_threads_items :: "json list \<Rightarrow> json list \<Rightarrow> error option \<times> json list" where
  "comment_threads_items [] comment_threads = (None, comment_threads)"
| "comment_threads_items (item # items) comment_threads =
     (case py_getitem item ''kind'' of
        Inl e \<Rightarrow> (Some e, comment_threads)
      | Inr kind \<Rightarrow>
          if kind = JStr ''youtube#commentThread''
          then (case py_getitem item ''id'' of
                  Inl e \<Rightarrow> (Some e, comment_threads)
                | Inr i \<Rightarrow> comment_threads_items items (comment_threads @ [i]))
          else comment_threads_items items comment_threads)"

text \<open>The body of the \<open>try\<close>: \<open>Inl e\<close> is the exception the \<open>except\<close> clause
  catches, \<open>Inr request'\<close> the value assigned to \<open>request\<close>.\<close>

definition comment_threads_page ::
  "'r api \<Rightarrow> 'r \<Rightarrow> json list \<Rightarrow> (error + 'r option) \<times> json list" where
  "comment_threads_page api request comment_threads =
     (case execute api request of
        Inl e \<Rightarrow> (Inl e, comment_threads)
      | Inr response \<Rightarrow>
          (case bindE (py_getitem response ''items'') py_iter of
             Inl e \<Rightarrow> (Inl e, comment_threads)
           | Inr its \<Rightarrow>
               (case comment_threads_items its comment_threads of
                  (Some e, cts) \<Rightarrow> (Inl e, cts)
                | (None, cts) \<Rightarrow> (list_next api CommentThreads request response, cts))))"

text \<open>The \<open>while request:\<close> loop. It ends when \<open>list_next\<close> returns \<open>None\<close> or
  when the \<open>except\<close> clause breaks; a client that always has a next page keeps it
  running, which is the value \<open>None\<close> here.\<close>

partial_function (option) comment_threads_loop ::
  "'r api \<Rightarrow> 'r option \<Rightarrow> json list \<Rightarrow> 'r effect list \<Rightarrow>
     (json list \<times> 'r effect list) option" where
  "comment_threads_loop api request comment_threads tr =
     (case request of
        None \<Rightarrow> Some (comment_threads, tr)
      | Some rq \<Rightarrow>
          (case comment_threads_page api rq comment_threads of
             (Inl e, cts) \<Rightarrow> Some (cts, tr @ [Execute rq, PrintStr e, PrintTraceback e])
           | (Inr request', cts) \<Rightarrow>
               comment_threads_loop api request' cts (tr @ [Execute rq])))"

definition comment_threads_request :: "'r api \<Rightarrow> string \<Rightarrow> 'r" where
  "comment_threads_request api video_id =
     list_request api CommentThreads
       [(''part'', JStr ''id''), (''videoId'', JStr video_id), (''maxResults'', JInt 100)]"

text \<open>The property as computed at its first use. \<open>Inr\<close> is a normal return; no
  statement of the property can raise past the \<open>try\<close>.\<close>

definition comment_threads ::
  "'r api \<Rightarrow> string \<Rightarrow> ((error + json list) \<times> 'r effect list) option" where
  "comment_threads api video_id =
     (case comment_threads_loop api (Some (comment_threads_request api video_id)) [] [] of
        None \<Rightarrow> None
      | Some (cts, tr) \<Rightarrow> Some (Inr cts, tr @ [Sleep 1]))"

section \<open>Channel.channel\_id and Channel.uploads\_id\<close>

definition channels_request :: "'r api \<Rightarrow> string \<Rightarrow> 'r" where
  "channels_request api channel_handle =
     list_request api Channels
       [(''part'', JStr ''id,contentDetails''), (''forHandle'', JStr channel_handle)]"

definition channel_id :: "'r api \<Rightarrow> string \<Rightarrow> (error + json) \<times> 'r effect list" where
  "channel_id api channel_handle =
     (let request = channels_request api channel_handle in
      case execute api request of
        Inl e \<Rightarrow> (Inl e, [Execute request])
      | Inr response \<Rightarrow>
          (case bindE (py_getitem response ''items'') py_len of
             Inl e \<Rightarrow> (Inl e, [Execute request])
           | Inr n \<Rightarrow>
               if n > 1
               then (Inl (RuntimeError
                       ''More than one response received, handle is ambiguous''),
                     [Execute request])
               else (bindE (py_getitem response ''items'') (\<lambda>items.
                     bindE (py_index items 0) (\<lambda>first.
                     py_getitem first ''id'')),
                     [Execute request, Sleep 1])))"

definition uploads_id :: "'r api \<Rightarrow> string \<Rightarrow> (error + json) \<times> 'r effect list" where
  "uploads_id api channel_handle =
     (let request = channels_request api channel_handle in
      case execute api request of
        Inl e \<Rightarrow> (Inl e, [Execute request])
      | Inr response \<Rightarrow>
          (case bindE (py_getitem response ''items'') py_len of
             Inl e \<Rightarrow> (Inl e, [Execute request])
           | Inr n \<Rightarrow>
               if n > 1
               then (Inl (RuntimeError
                       ''More than one response received, channel id ambiguous''),
                     [Execute request])
               else (bindE (py_getitem response ''items'') (\<lambda>items.
                     bindE (py_index items 0) (\<lambda>first.
                     bindE (py_getitem first ''contentDetails'') (\<lambda>details.
                     bindE (py_getitem details ''relatedPlaylists'') (\<lambda>related.
                     py_getitem related ''uploads'')))),
                     [Execute request, Sleep 1])))"

section \<open>Channel.video\_ids\<close>

fun video_ids_items :: "json list \<Rightarrow> json list \<Rightarrow> error option \<times> json list" where
  "video_ids_items [] video_ids = (None, video_ids)"
| "video_ids_items (item # items) video_ids =
     (case bindE (py_getitem item ''snippet'') (\<lambda>snippet.
           py_getitem snippet ''resourceId'') of
        Inl e \<Rightarrow> (Some e, video_ids)
      | Inr resource \<Rightarrow>
          (case py_getitem resource ''kind'' of
             Inl e \<Rightarrow> (Some e, video_ids)
           | Inr kind \<Rightarrow>
               if kind = JStr ''youtube#video''
               then (case py_getitem resource ''videoId'' of
                       Inl e \<Rightarrow> (Some e, video_ids)
                     | Inr video_id \<Rightarrow> video_ids_items items (video_ids @ [video_id]))
               else video_ids_items items video_ids))"

definition video_ids_page ::
  "'r api \<Rightarrow> 'r \<Rightarrow> json list \<Rightarrow> (error + 'r option) \<times> json list" where
  "video_ids_page api request video_ids =
     (case execute api request of
        Inl e \<Rightarrow> (Inl e, video_ids)
      | Inr response \<Rightarrow>
          (case bindE (py_getitem response ''items'') py_iter of
             Inl e \<Rightarrow> (Inl e, video_ids)
           | Inr its \<Rightarrow>
               (case video_ids_items its video_ids of
                  (Some e, vids) \<Rightarrow> (Inl e, vids)
                | (None, vids) \<Rightarrow> (list_next api PlaylistItems request response, vids))))"

text \<open>Here the \<open>sleep(1)\<close> is inside the \<open>try\<close>, after \<open>list_next\<close>: one per page
  that went through.\<close>

partial_function (option) video_ids_loop ::
  "'r api \<Rightarrow> 'r option \<Rightarrow> json list \<Rightarrow> 'r effect list \<Rightarrow>
     (json list \<times> 'r effect list) option" where
  "video_ids_loop api request video_ids tr =
     (case request of
        None \<Rightarrow> Some (video_ids, tr)
      | Some rq \<Rightarrow>
          (case video_ids_page api rq video_ids of
             (Inl e, vids) \<Rightarrow> Some (vids, tr @ [Execute rq, PrintStr e, PrintTraceback e])
           | (Inr request', vids) \<Rightarrow>
               video_ids_loop api request' vids (tr @ [Execute rq, Sleep 1])))"

definition video_ids_request :: "'r api \<Rightarrow> json \<Rightarrow> 'r" where
  "video_ids_request api playlist =
     list_request api PlaylistItems
       [(''part'', JStr ''snippet''), (''playlistId'', playlist), (''maxResults'', JInt 50)]"

text \<open>The property at its first use: \<open>self.uploads_id\<close> is resolved first, outside
  the \<open>try\<close>, so what it raises leaves \<open>video_ids\<close>.\<close>

definition video_ids ::
  "'r api \<Rightarrow> string \<Rightarrow> ((error + json list) \<times> 'r effect list) option" where
  "video_ids api channel_handle =
     (case uploads_id api channel_handle of
        (Inl e, tr) \<Rightarrow> Some (Inl e, tr)
      | (Inr playlist, tr) \<Rightarrow>
          (case video_ids_loop api (Some (video_ids_request api playlist)) [] tr of
             None \<Rightarrow> None
           | Some (vids, tr') \<Rightarrow> Some (Inr vids, tr')))"

section \<open>Paginated sources\<close>

text \<open>
  \<open>serves api rs r rps\<close>: starting from the request \<open>r\<close>, the client answers the
  requests and pages listed in \<open>rps\<close>, each page's \<open>list_next\<close> leading to the next
  request and the last page's to \<open>None\<close>: a finite source of \<open>length rps\<close> pages.
\<close>

fun serves :: "'r api \<Rightarrow> resource \<Rightarrow> 'r \<Rightarrow> ('r \<times> json) list \<Rightarrow> bool" where
  "serves api rs r [] = False"
| "serves api rs r (rp # rest) =
     (fst rp = r \<and> execute api r = Inr (snd rp) \<and>
      (case list_next api rs r (snd rp) of
         Inl e \<Rightarrow> False
       | Inr None \<Rightarrow> rest = []
       | Inr (Some r') \<Rightarrow> serves api rs r' rest))"

text \<open>
  \<open>serves_then_fails api rs r rps rf e\<close>: the client answers the pages of \<open>rps\<close>
  and then the request \<open>rf\<close> for the page after them raises \<open>e\<close>.
\<close>

fun serves_then_fails ::
  "'r api \<Rightarrow> resource \<Rightarrow> 'r \<Rightarrow> ('r \<times> json) list \<Rightarrow> 'r \<Rightarrow> error \<Rightarrow> bool" where
  "serves_then_fails api rs r [] rf e = (rf = r \<and> execute api r = Inl e)"
| "serves_then_fails api rs r (rp # rest) rf e =
     (fst rp = r \<and> execute api r = Inr (snd rp) \<and>
      (case list_next api rs r (snd rp) of
         Inl e' \<Rightarrow> False
       | Inr None \<Rightarrow> False
       | Inr (Some r') \<Rightarrow> serves_then_fails api rs r' rest rf e))"

text \<open>A mock client: \<open>pages_of rs kwargs\<close> lists the pages that answer the call
  \<open>api.rs().list(**kwargs)\<close>, each a response or the exception its request raises;
  a request is the call and the number of the page it asks for.\<close>

type_synonym mock_request = "resource \<times> (string \<times> json) list \<times> nat"

definition mock_api ::
  "(resource \<Rightarrow> (string \<times> json) list \<Rightarrow> (error + json) list) \<Rightarrow> mock_request api" where
  "mock_api pages_of =
     \<lparr> list_request = (\<lambda>rs kwargs. (rs, kwargs, 0)),
       execute = (\<lambda>(rs, kwargs, i).
         if i < length (pages_of rs kwargs) then pages_of rs kwargs ! i
         else Inl (HttpError ''no such page'')),
       list_next = (\<lambda>rs (rs', kwargs, i) response.
         Inr (if Suc i < length (pages_of rs' kwargs) then Some (rs', kwargs, Suc i)
              else None)) \<rparr>"

text \<open>The items of a page, and what the comment-thread listing is to keep of them: the
  \<open>id\<close> of every item whose \<open>kind\<close> is \<open>youtube#commentThread\<close>.\<close>

definition page_items :: "json \<Rightarrow> json list option" where
  "page_items page =
     (case py_getitem page ''items'' of Inr (JList its) \<Rightarrow> Some its | _ \<Rightarrow> None)"

definition thread_id_of :: "json \<Rightarrow> json option" where
  "thread_id_of item =
     (case py_getitem item ''kind'' of
        Inl e \<Rightarrow> None
      | Inr kind \<Rightarrow>
          if kind = JStr ''youtube#commentThread''
          then (case py_getitem item ''id'' of Inl e \<Rightarrow> None | Inr i \<Rightarrow> Some i)
          else None)"

text \<open>An item the listing can read: it has a \<open>kind\<close>, and an \<open>id\<close> when the kind is
  the expected one.\<close>

definition wf_thread_item :: "json \<Rightarrow> bool" where
  "wf_thread_item item =
     (case py_getitem item ''kind'' of
        Inl e \<Rightarrow> False
      | Inr kind \<Rightarrow>
          if kind = JStr ''youtube#commentThread''
          then (case py_getitem item ''id'' of Inl e \<Rightarrow> False | Inr i \<Rightarrow> True)
          else True)"

definition wf_thread_page :: "json \<Rightarrow> bool" where
  "wf_thread_page page =
     (case page_items page of None \<Rightarrow> False | Some its \<Rightarrow> list_all wf_thread_item its)"

definition page_thread_ids :: "json \<Rightarrow> json list" where
  "page_thread_ids page =
     (case page_items page of None \<Rightarrow> [] | Some its \<Rightarrow> List.map_filter thread_id_of its)"

text \<open>The same for the playlist listing: the \<open>videoId\<close> of every item whose
  \<open>snippet.resourceId.kind\<close> is \<open>youtube#video\<close>.\<close>

definition item_resource :: "json \<Rightarrow> error + json" where
  "item_resource item =
     bindE (py_getitem item ''snippet'') (\<lambda>snippet. py_getitem snippet ''resourceId'')"

definition video_id_of :: "json \<Rightarrow> json option" where
  "video_id_of item =
     (case bindE (item_resource item) (\<lambda>resource.
           bindE (py_getitem resource ''kind'') (\<lambda>kind.
           if kind = JStr ''youtube#video''
           then py_getitem resource ''videoId'' else Inl TypeError)) of
        Inl e \<Rightarrow> None
      | Inr video_id \<Rightarrow> Some video_id)"

definition wf_playlist_item :: "json \<Rightarrow> bool" where
  "wf_playlist_item item =
     (case item_resource item of
        Inl e \<Rightarrow> False
      | Inr resource \<Rightarrow>
          (case py_getitem resource ''kind'' of
             Inl e \<Rightarrow> False
           | Inr kind \<Rightarrow>
               if kind = JStr ''youtube#video''
               then (case py_getitem resource ''videoId'' of Inl e \<Rightarrow> False | Inr v \<Rightarrow> True)
               else True))"

definition wf_playlist_page :: "json \<Rightarrow> bool" where
  "wf_playlist_page page =
     (case page_items page of None \<Rightarrow> False | Some its \<Rightarrow> list_all wf_playlist_item its)"

definition page_video_ids :: "json \<Rightarrow> json list" where
  "page_video_ids page =
     (case page_items page of None \<Rightarrow> [] | Some its \<Rightarrow> List.map_filter video_id_of its)"

section \<open>More of Python: \<open>str\<close>, \<open>join\<close>, comparison, \<open>range\<close> and slices\<close>

function str_nat :: "nat \<Rightarrow> string" where
  "str_nat n =
     (if n < 10 then [''0123456789'' ! n]
      else str_nat (n div 10) @ [''0123456789'' ! (n mod 10)])"
  by pat_completeness auto
termination
  by (relation "measure id") auto

definition str_int :: "int \<Rightarrow> string" where
  "str_int i = (if i < 0 then CHR ''-'' # str_nat (nat (- i)) else str_nat (nat i))"

text \<open>\<open>str(v)\<close>. For a list or a dictionary it is Python's \<open>repr\<close>, whose quoting
  rules are not modelled: \<open>py_repr\<close> is a parameter.\<close>

fun py_str :: "(json \<Rightarrow> string) \<Rightarrow> json \<Rightarrow> string" where
  "py_str py_repr (JStr s) = s"
| "py_str py_repr (JInt i) = str_int i"
| "py_str py_repr (JBool b) = (if b then ''True'' else ''False'')"
| "py_str py_repr JNull = ''None''"
| "py_str py_repr v = py_repr v"

text \<open>\<open>v > 0\<close>: integers compare, \<open>True\<close> counts as 1, anything else raises.\<close>

fun py_gt_zero :: "json \<Rightarrow> error + bool" where
  "py_gt_zero (JInt i) = Inr (0 < i)"
| "py_gt_zero (JBool b) = Inr b"
| "py_gt_zero v = Inl TypeError"

fun json_str :: "json \<Rightarrow> string option" where
  "json_str (JStr s) = Some s"
| "json_str v = None"

fun join_strs :: "string \<Rightarrow> string list \<Rightarrow> string" where
  "join_strs sep [] = []"
| "join_strs sep [s] = s"
| "join_strs sep (s # t # ss) = s @ sep @ join_strs sep (t # ss)"

text \<open>\<open>sep.join(xs)\<close> raises when an element is not a string.\<close>

definition py_join :: "string \<Rightarrow> json list \<Rightarrow> error + string" where
  "py_join sep xs =
     (case those (map json_str xs) of
        None \<Rightarrow> Inl TypeError
      | Some ss \<Rightarrow> Inr (join_strs sep ss))"

text \<open>\<open>range(start, stop, step)\<close> as the list a \<open>for\<close> loop runs through (the code's
  step is the literal 50), and the slice \<open>xs[i:j]\<close>.\<close>

function py_range :: "nat \<Rightarrow> nat \<Rightarrow> nat \<Rightarrow> nat list" where
  "py_range start stop step =
     (if 0 < step \<and> start < stop then start # py_range (start + step) stop step else [])"
  by pat_completeness auto
termination
  by (relation "measure (\<lambda>(start, stop, step). stop - start)") auto

definition py_slice :: "'a list \<Rightarrow> nat \<Rightarrow> nat \<Rightarrow> 'a list" where
  "py_slice xs i j = drop i (take j xs)"

section \<open>The table library\<close>

text \<open>
  polars is outside the repository too. It is a parameter: \<open>pl_schema_frame\<close> is
  \<open>pl.DataFrame(schema=...)\<close>, \<open>pl_DataFrame\<close> is \<open>pl.DataFrame(data=...)\<close> on
  the dictionary of column lists (it may raise, for instance on a column of mixed
  types), \<open>pl_concat\<close> is \<open>pl.concat\<close> (it raises when the schemas differ). A cell is
  the Python value put into the column list.
\<close>

datatype dtype = Str | ListStr

record 'df polars =
  pl_schema_frame :: "(string \<times> dtype) list \<Rightarrow> 'df"
  pl_DataFrame :: "(string \<times> json list) list \<Rightarrow> error + 'df"
  pl_concat :: "'df list \<Rightarrow> error + 'df"

section \<open>Video.\_fetch\_comment\_batch and Video.fetch\_comments\<close>

text \<open>The six lists the loop appends to.\<close>

record comment_lists =
  comments :: "json list"
  comment_dts :: "json list"
  user_names :: "json list"
  like_cnts :: "json list"
  reply_cnts :: "json list"
  replies :: "json list"

definition no_comments :: comment_lists where
  "no_comments =
     \<lparr> comments = [], comment_dts = [], user_names = [], like_cnts = [],
       reply_cnts = [], replies = [] \<rparr>"

text \<open>The inner loop \<open>for reply in item["replies"]["comments"]\<close>: the texts appended
  to the last element of \<open>replies\<close>.\<close>

fun reply_texts :: "json list \<Rightarrow> error + json list" where
  "reply_texts [] = Inr []"
| "reply_texts (reply # rest) =
     (case bindE (py_getitem reply ''snippet'') (\<lambda>snippet.
           py_getitem snippet ''textDisplay'') of
        Inl e \<Rightarrow> Inl e
      | Inr t \<Rightarrow>
          (case reply_texts rest of
             Inl e \<Rightarrow> Inl e
           | Inr ts \<Rightarrow> Inr (t # ts)))"

text \<open>The \<open>if reply_cnt > 0\<close> statement: the list appended to \<open>replies\<close>.\<close>

definition item_replies :: "json \<Rightarrow> json \<Rightarrow> error + json list" where
  "item_replies item reply_cnt =
     bindE (py_gt_zero reply_cnt) (\<lambda>positive.
       if positive
       then bindE (py_getitem item ''replies'') (\<lambda>rs.
            bindE (py_getitem rs ''comments'') (\<lambda>cs.
            bindE (py_iter cs) reply_texts))
       else Inr [])"

text \<open>One pass of \<open>for item in response["items"]\<close>. The lists are local to the call,
  so the appends made before an exception are never seen: a pass either appends to
  all six lists or raises.\<close>

definition comment_item ::
  "(json \<Rightarrow> string) \<Rightarrow> json \<Rightarrow> comment_lists \<Rightarrow> error + comment_lists" where
  "comment_item py_repr item cl =
     bindE (py_getitem item ''snippet'') (\<lambda>snippet.
     bindE (py_getitem snippet ''topLevelComment'') (\<lambda>top_level.
     bindE (py_getitem top_level ''snippet'') (\<lambda>top_comment.
     bindE (py_getitem top_comment ''textDisplay'') (\<lambda>comment.
     bindE (py_getitem top_comment ''publishedAt'') (\<lambda>comment_dt.
     bindE (py_getitem top_comment ''authorDisplayName'') (\<lambda>user_name.
     bindE (py_getitem top_comment ''likeCount'') (\<lambda>like_cnt.
     bindE (py_getitem snippet ''totalReplyCount'') (\<lambda>reply_cnt.
     bindE (item_replies item reply_cnt) (\<lambda>texts.
     Inr \<lparr> comments = comments cl @ [comment],
           comment_dts = comment_dts cl @ [comment_dt],
           user_names = user_names cl @ [user_name],
           like_cnts = like_cnts cl @ [JStr (py_str py_repr like_cnt)],
           reply_cnts = reply_cnts cl @ [JStr (py_str py_repr reply_cnt)],
           replies = replies cl @ [JList texts] \<rparr>)))))))))"

fun comment_items ::
  "(json \<Rightarrow> string) \<Rightarrow> json list \<Rightarrow> comment_lists \<Rightarrow> error + comment_lists" where
  "comment_items py_repr [] cl = Inr cl"
| "comment_items py_repr (item # items) cl =
     (case comment_item py_repr item cl of
        Inl e \<Rightarrow> Inl e
      | Inr cl' \<Rightarrow> comment_items py_repr items cl')"

text \<open>The dictionary passed to \<open>pl.DataFrame(data=...)\<close>.\<close>

definition comment_data :: "comment_lists \<Rightarrow> (string \<times> json list) list" where
  "comment_data cl =
     [(''comment'', comments cl), (''comment_dt'', comment_dts cl),
      (''user_name'', user_names cl), (''like_cnt'', like_cnts cl),
      (''reply_cnt'', reply_cnts cl), (''replies'', replies cl)]"

text \<open>From the response to that dictionary: everything of \<open>_fetch_comment_batch\<close>
  between \<open>request.execute()\<close> and \<open>pl.DataFrame\<close>.\<close>

definition comment_batch_data ::
  "(json \<Rightarrow> string) \<Rightarrow> json \<Rightarrow> error + (string \<times> json list) list" where
  "comment_batch_data py_repr response =
     bindE (py_getitem response ''items'') (\<lambda>items.
     bindE (py_iter items) (\<lambda>its.
     bindE (comment_items py_repr its no_comments) (\<lambda>cl.
     Inr (comment_data cl))))"

definition comment_batch_request :: "'r api \<Rightarrow> string \<Rightarrow> 'r" where
  "comment_batch_request api comment_ids =
     list_request api CommentThreads
       [(''part'', JStr ''snippet,replies''), (''id'', JStr comment_ids),
        (''maxResults'', JInt 50)]"

definition fetch_comment_batch ::
  "'df polars \<Rightarrow> 'r api \<Rightarrow> (json \<Rightarrow> string) \<Rightarrow> json list \<Rightarrow>
     (error + 'df) \<times> 'r effect list" where
  "fetch_comment_batch pl api py_repr comment_batch =
     (case py_join '','' comment_batch of
        Inl e \<Rightarrow> (Inl e, [])
      | Inr comment_ids \<Rightarrow>
          (let request = comment_batch_request api comment_ids in
           case execute api request of
             Inl e \<Rightarrow> (Inl e, [Execute request])
           | Inr response \<Rightarrow>
               (bindE (comment_batch_data py_repr response) (pl_DataFrame pl),
                [Execute request])))"

definition comment_schema :: "(string \<times> dtype) list" where
  "comment_schema =
     [(''comment'', Str), (''comment_dt'', Str), (''user_name'', Str),
      (''like_cnt'', Str), (''reply_cnt'', Str), (''replies'', ListStr)]"

text \<open>The loop \<open>for i in range(0, len(self.comment_threads), 50)\<close>, over the list of
  its indices; \<open>threads\<close> is \<open>self.comment_threads\<close>.\<close>

fun fetch_comments_loop ::
  "'df polars \<Rightarrow> 'r api \<Rightarrow> (json \<Rightarrow> string) \<Rightarrow> json list \<Rightarrow> nat list \<Rightarrow>
     'df \<Rightarrow> 'r effect list \<Rightarrow> (error + 'df) \<times> 'r effect list" where
  "fetch_comments_loop pl api py_repr threads [] df tr = (Inr df, tr)"
| "fetch_comments_loop pl api py_repr threads (i # is) df tr =
     (case fetch_comment_batch pl api py_repr (py_slice threads i (i + 50)) of
        (Inl e, tr2) \<Rightarrow> (Inl e, tr @ tr2)
      | (Inr df2, tr2) \<Rightarrow>
          (case pl_concat pl [df, df2] of
             Inl e \<Rightarrow> (Inl e, tr @ tr2 @ [Sleep 1])
           | Inr df' \<Rightarrow>
               fetch_comments_loop pl api py_repr threads is df'
                 (tr @ tr2 @ [Sleep 1])))"

text \<open>\<open>fetch_comments\<close> with \<open>self.threads\<close> already known, and at its
  first use (the listing runs first).\<close>

definition fetch_comments_of ::
  "'df polars \<Rightarrow> 'r api \<Rightarrow> (json \<Rightarrow> string) \<Rightarrow> json list \<Rightarrow> 'r effect list \<Rightarrow>
     (error + 'df) \<times> 'r effect list" where
  "fetch_comments_of pl api py_repr threads tr =
     fetch_comments_loop pl api py_repr threads
       (py_range 0 (length threads) 50)
       (pl_schema_frame pl comment_schema) tr"

definition fetch_comments ::
  "'df polars \<Rightarrow> 'r api \<Rightarrow> (json \<Rightarrow> string) \<Rightarrow> string \<Rightarrow>
     ((error + 'df) \<times> 'r effect list) option" where
  "fetch_comments pl api py_repr video_id =
     (case comment_threads api video_id of
        None \<Rightarrow> None
      | Some (Inl e, tr) \<Rightarrow> Some (Inl e, tr)
      | Some (Inr cts, tr) \<Rightarrow> Some (fetch_comments_of pl api py_repr cts tr))"

section \<open>Channel.\_fetch\_video\_batch and Channel.fetch\_videos\<close>

text \<open>The nine lists of \<open>_fetch_video_batch\<close>. Two are renamed: \<open>video_ids\<close> is
  \<open>batch_video_ids\<close> and \<open>like_cnts\<close> is \<open>video_like_cnts\<close> here.\<close>

record video_lists =
  batch_video_ids :: "json list"
  published_dts :: "json list"
  video_titles :: "json list"
  video_descriptions :: "json list"
  video_tags :: "json list"
  view_cnts :: "json list"
  video_like_cnts :: "json list"
  fave_cnts :: "json list"
  comment_cnts :: "json list"

definition no_videos :: video_lists where
  "no_videos =
     \<lparr> batch_video_ids = [], published_dts = [], video_titles = [],
       video_descriptions = [], video_tags = [], view_cnts = [], video_like_cnts = [],
       fave_cnts = [], comment_cnts = [] \<rparr>"

definition video_item :: "json \<Rightarrow> video_lists \<Rightarrow> error + video_lists" where
  "video_item item vl =
     bindE (py_getitem item ''kind'') (\<lambda>kind.
     if kind = JStr ''youtube#video''
     then
       bindE (py_getitem item ''id'') (\<lambda>video_id.
       bindE (py_getitem item ''snippet'') (\<lambda>snippet.
       bindE (py_getitem snippet ''publishedAt'') (\<lambda>published_dt.
       bindE (py_getitem snippet ''title'') (\<lambda>video_title.
       bindE (py_getitem snippet ''description'') (\<lambda>video_description.
       bindE (py_getitem snippet ''tags'') (\<lambda>video_tag.
       bindE (py_getitem item ''statistics'') (\<lambda>stats.
       bindE (py_getitem stats ''viewCount'') (\<lambda>view_cnt.
       bindE (py_getitem stats ''likeCount'') (\<lambda>like_cnt.
       bindE (py_getitem stats ''favoriteCount'') (\<lambda>fave_cnt.
       bindE (py_getitem stats ''commentCount'') (\<lambda>comment_cnt.
       Inr \<lparr> batch_video_ids = batch_video_ids vl @ [video_id],
             published_dts = published_dts vl @ [published_dt],
             video_titles = video_titles vl @ [video_title],
             video_descriptions = video_descriptions vl @ [video_description],
             video_tags = video_tags vl @ [video_tag],
             view_cnts = view_cnts vl @ [view_cnt],
             video_like_cnts = video_like_cnts vl @ [like_cnt],
             fave_cnts = fave_cnts vl @ [fave_cnt],
             comment_cnts = comment_cnts vl @ [comment_cnt] \<rparr>)))))))))))
     else Inr vl)"

fun video_items :: "json list \<Rightarrow> video_lists \<Rightarrow> error + video_lists" where
  "video_items [] vl = Inr vl"
| "video_items (item # items) vl =
     (case video_item item vl of
        Inl e \<Rightarrow> Inl e
      | Inr vl' \<Rightarrow> video_items items vl')"

definition video_data :: "video_lists \<Rightarrow> (string \<times> json list) list" where
  "video_data vl =
     [(''video_id'', batch_video_ids vl), (''published_dt'', published_dts vl),
      (''video_title'', video_titles vl), (''video_description'', video_descriptions vl),
      (''video_tags'', video_tags vl), (''view_cnt'', view_cnts vl),
      (''like_cnt'', video_like_cnts vl), (''fave_cnt'', fave_cnts vl),
      (''comment_cnt'', comment_cnts vl)]"

definition video_batch_data :: "json \<Rightarrow> error + (string \<times> json list) list" where
  "video_batch_data response =
     bindE (py_getitem response ''items'') (\<lambda>items.
     bindE (py_iter items) (\<lambda>its.
     bindE (video_items its no_videos) (\<lambda>vl.
     Inr (video_data vl))))"

definition video_batch_request :: "'r api \<Rightarrow> string \<Rightarrow> 'r" where
  "video_batch_request api ids =
     list_request api Videos
       [(''part'', JStr ''id,snippet,statistics''), (''id'', JStr ids),
        (''maxResults'', JInt 50)]"

definition fetch_video_batch ::
  "'df polars \<Rightarrow> 'r api \<Rightarrow> json list \<Rightarrow> (error + 'df) \<times> 'r effect list" where
  "fetch_video_batch pl api video_batch =
     (case py_join '','' video_batch of
        Inl e \<Rightarrow> (Inl e, [])
      | Inr ids \<Rightarrow>
          (let request = video_batch_request api ids in
           case execute api request of
             Inl e \<Rightarrow> (Inl e, [Execute request])
           | Inr response \<Rightarrow>
               (bindE (video_batch_data response) (pl_DataFrame pl), [Execute request])))"

definition video_schema :: "(string \<times> dtype) list" where
  "video_schema =
     [(''video_id'', Str), (''published_dt'', Str), (''video_title'', Str),
      (''video_description'', Str), (''video_tags'', ListStr), (''view_cnt'', Str),
      (''like_cnt'', Str), (''fave_cnt'', Str), (''comment_cnt'', Str)]"

fun fetch_videos_loop ::
  "'df polars \<Rightarrow> 'r api \<Rightarrow> json list \<Rightarrow> nat list \<Rightarrow>
     'df \<Rightarrow> 'r effect list \<Rightarrow> (error + 'df) \<times> 'r effect list" where
  "fetch_videos_loop pl api vids [] df tr = (Inr df, tr)"
| "fetch_videos_loop pl api vids (i # is) df tr =
     (case fetch_video_batch pl api (py_slice vids i (i + 50)) of
        (Inl e, tr2) \<Rightarrow> (Inl e, tr @ tr2)
      | (Inr df2, tr2) \<Rightarrow>
          (case pl_concat pl [df, df2] of
             Inl e \<Rightarrow> (Inl e, tr @ tr2 @ [Sleep 1])
           | Inr df' \<Rightarrow> fetch_videos_loop pl api vids is df' (tr @ tr2 @ [Sleep 1])))"

definition fetch_videos_of ::
  "'df polars \<Rightarrow> 'r api \<Rightarrow> json list \<Rightarrow> 'r effect list \<Rightarrow>
     (error + 'df) \<times> 'r effect list" where
  "fetch_videos_of pl api vids tr =
     fetch_videos_loop pl api vids (py_range 0 (length vids) 50)
       (pl_schema_frame pl video_schema) tr"

definition fetch_videos ::
  "'df polars \<Rightarrow> 'r api \<Rightarrow> string \<Rightarrow> ((error + 'df) \<times> 'r effect list) option" where
  "fetch_videos pl api channel_handle =
     (case video_ids api channel_handle of
        None \<Rightarrow> None
      | Some (Inl e, tr) \<Rightarrow> Some (Inl e, tr)
      | Some (Inr vids, tr) \<Rightarrow> Some (fetch_videos_of pl api vids tr))"

section \<open>The fields a flattener reads\<close>

text \<open>A field of an item is named by the path of keys the code subscripts to reach it:
  \<open>item["snippet"]["totalReplyCount"]\<close> is the path \<open>snippet, totalReplyCount\<close>.
  \<open>json_path\<close> does the subscripting and \<open>read_all\<close> reads a list of fields in
  order, stopping at the first that raises.\<close>

fun json_path :: "json \<Rightarrow> string list \<Rightarrow> error + json" where
  "json_path v [] = Inr v"
| "json_path v (k # ks) =
     (case py_getitem v k of Inl e \<Rightarrow> Inl e | Inr v' \<Rightarrow> json_path v' ks)"

fun read_all :: "json \<Rightarrow> string list list \<Rightarrow> error + json list" where
  "read_all item [] = Inr []"
| "read_all item (p # ps) =
     (case json_path item p of
        Inl e \<Rightarrow> Inl e
      | Inr v \<Rightarrow> (case read_all item ps of Inl e \<Rightarrow> Inl e | Inr vs \<Rightarrow> Inr (v # vs)))"

text \<open>A field is readable when the subscripting returns; it is absent when everything
  above it is there and is a dictionary without the last key.\<close>

definition readable :: "json \<Rightarrow> string list \<Rightarrow> bool" where
  "readable item p = (case json_path item p of Inl e \<Rightarrow> False | Inr v \<Rightarrow> True)"

definition absent :: "json \<Rightarrow> string list \<Rightarrow> bool" where
  "absent item p =
     (p \<noteq> [] \<and>
      (case json_path item (butlast p) of
         Inr (JObj kvs) \<Rightarrow> map_of kvs (last p) = None
       | _ \<Rightarrow> False))"

text \<open>The fields \<open>_fetch_comment_batch\<close> reads of every item and
  \<open>_fetch_video_batch\<close> reads of every item of kind \<open>youtube#video\<close>, in the order
  of the first read (lines 134-149 and 361-389 of \<open>youtube.py\<close>).\<close>

definition comment_fields :: "string list list" where
  "comment_fields =
     [[''snippet''],
      [''snippet'', ''topLevelComment''],
      [''snippet'', ''topLevelComment'', ''snippet''],
      [''snippet'', ''topLevelComment'', ''snippet'', ''textDisplay''],
      [''snippet'', ''topLevelComment'', ''snippet'', ''publishedAt''],
      [''snippet'', ''topLevelComment'', ''snippet'', ''authorDisplayName''],
      [''snippet'', ''topLevelComment'', ''snippet'', ''likeCount''],
      [''snippet'', ''totalReplyCount'']]"

definition video_fields :: "string list list" where
  "video_fields =
     [[''id''],
      [''snippet''],
      [''snippet'', ''publishedAt''],
      [''snippet'', ''title''],
      [''snippet'', ''description''],
      [''snippet'', ''tags''],
      [''statistics''],
      [''statistics'', ''viewCount''],
      [''statistics'', ''likeCount''],
      [''statistics'', ''favoriteCount''],
      [''statistics'', ''commentCount'']]"

section \<open>Example responses\<close>

text \<open>Small responses in the shape the API documents, and a mock client serving them;
  the instances at which the theorems below are evaluated.\<close>

definition thread_item :: "string \<Rightarrow> json" where
  "thread_item i = JObj [(''kind'', JStr ''youtube#commentThread''), (''id'', JStr i)]"

definition playlist_item :: "string \<Rightarrow> string \<Rightarrow> json" where
  "playlist_item kind i =
     JObj [(''kind'', JStr ''youtube#playlistItem''),
           (''snippet'', JObj [(''resourceId'',
              JObj [(''kind'', JStr kind), (''videoId'', JStr i)])])]"

definition items_page :: "json list \<Rightarrow> json" where
  "items_page its = JObj [(''items'', JList its)]"

definition channel_item :: "string \<Rightarrow> string \<Rightarrow> json" where
  "channel_item cid uploads =
     JObj [(''kind'', JStr ''youtube#channel''), (''id'', JStr cid),
           (''contentDetails'',
              JObj [(''relatedPlaylists'', JObj [(''uploads'', JStr uploads)])])]"

definition demo_pages :: "resource \<Rightarrow> (string \<times> json) list \<Rightarrow> (error + json) list" where
  "demo_pages rs kwargs =
     (case rs of
        CommentThreads \<Rightarrow>
          [Inr (items_page [thread_item ''t1'',
                  JObj [(''kind'', JStr ''youtube#comment''), (''id'', JStr ''c1'')],
                  thread_item ''t2'']),
           Inr (items_page [JObj [(''kind'', JStr ''youtube#video'')], thread_item ''t3''])]
      | Channels \<Rightarrow> [Inr (items_page [channel_item ''UC1'' ''UU1''])]
      | PlaylistItems \<Rightarrow>
          [Inr (items_page [playlist_item ''youtube#video'' ''v1'',
                  playlist_item ''youtube#channel'' ''x'']),
           Inr (items_page [playlist_item ''youtube#video'' ''v2''])]
      | Videos \<Rightarrow> [])"

definition demo_threads_kwargs :: "(string \<times> json) list" where
  "demo_threads_kwargs =
     [(''part'', JStr ''id''), (''videoId'', JStr ''vid''), (''maxResults'', JInt 100)]"

definition demo_playlist_kwargs :: "(string \<times> json) list" where
  "demo_playlist_kwargs =
     [(''part'', JStr ''snippet''), (''playlistId'', JStr ''UU1''), (''maxResults'', JInt 50)]"

definition failing_pages :: "resource \<Rightarrow> (string \<times> json) list \<Rightarrow> (error + json) list" where
  "failing_pages rs kwargs =
     (case rs of
        CommentThreads \<Rightarrow>
          [Inr (items_page [thread_item ''t1'',
                  JObj [(''kind'', JStr ''youtube#comment''), (''id'', JStr ''c1'')],
                  thread_item ''t2'']),
           Inl (HttpError ''quotaExceeded''),
           Inr (items_page [thread_item ''t3''])]
      | Channels \<Rightarrow> [Inr (items_page [channel_item ''UC1'' ''UU1''])]
      | PlaylistItems \<Rightarrow>
          [Inr (items_page [playlist_item ''youtube#video'' ''v1'',
                  playlist_item ''youtube#channel'' ''x'']),
           Inl (HttpError ''quotaExceeded''),
           Inr (items_page [playlist_item ''youtube#video'' ''v2''])]
      | Videos \<Rightarrow> [])"

definition ambiguous_pages :: "resource \<Rightarrow> (string \<times> json) list \<Rightarrow> (error + json) list" where
  "ambiguous_pages rs kwargs =
     [Inr (items_page [channel_item ''UC1'' ''UU1'', channel_item ''UC2'' ''UU2''])]"

definition empty_pages :: "resource \<Rightarrow> (string \<times> json) list \<Rightarrow> (error + json) list" where
  "empty_pages rs kwargs = [Inr (items_page [])]"

text \<open>The two kinds of error a resolver meets: Python's lookup errors (\<open>IndexError\<close>
  and \<open>KeyError\<close> are the subclasses of \<open>LookupError\<close>) and the resolvers' own
  ambiguity error.\<close>

definition lookup_error :: "error \<Rightarrow> bool" where
  "lookup_error e = (case e of IndexError \<Rightarrow> True | KeyError k \<Rightarrow> True | _ \<Rightarrow> False)"

definition ambiguity_error :: "error \<Rightarrow> bool" where
  "ambiguity_error e =
     (e = RuntimeError ''More than one response received, handle is ambiguous'' \<or>
      e = RuntimeError ''More than one response received, channel id ambiguous'')"

section \<open>Batches and example tables\<close>

text \<open>The values \<open>comment_batch\<close> and \<open>video_batch\<close> take, in the order of the
  loop: the slice \<open>ids[i : i + 50]\<close> for each \<open>i\<close> of \<open>range(0, len(ids), 50)\<close>.\<close>

definition batches :: "'a list \<Rightarrow> 'a list list" where
  "batches ids = map (\<lambda>i. py_slice ids i (i + 50)) (py_range 0 (length ids) 50)"

text \<open>
  Modelled from the spec: a table library for the examples. A table is its columns, in
  order. Concatenating two tables puts the rows of the second after those of the first
  (spec, section 3, Table); the column names and their order must match exactly, or the
  concatenation fails with a schema-mismatch error (spec, section 4.4). A table is built
  from columns of one length. The types of the cells are not checked.
\<close>

type_synonym frame = "(string \<times> json list) list"

definition append_rows :: "frame \<Rightarrow> frame \<Rightarrow> frame" where
  "append_rows a b = map (\<lambda>cc. (fst (fst cc), snd (fst cc) @ snd (snd cc))) (zip a b)"

definition concat_frames :: "frame \<Rightarrow> frame \<Rightarrow> error + frame" where
  "concat_frames a b =
     (if map fst a = map fst b then Inr (append_rows a b)
      else Inl (PolarsError ''schema mismatch''))"

fun concat_all :: "frame \<Rightarrow> frame list \<Rightarrow> error + frame" where
  "concat_all df [] = Inr df"
| "concat_all df (d # ds) =
     (case concat_frames df d of Inl e \<Rightarrow> Inl e | Inr df' \<Rightarrow> concat_all df' ds)"

definition frame_of_data :: "frame \<Rightarrow> error + frame" where
  "frame_of_data cols =
     (case cols of
        [] \<Rightarrow> Inr []
      | c # cs \<Rightarrow>
          if list_all (\<lambda>d. length (snd d) = length (snd c)) cs then Inr cols
          else Inl (PolarsError ''columns of different lengths''))"

definition demo_polars :: "frame polars" where
  "demo_polars =
     \<lparr> pl_schema_frame = map (\<lambda>col. (fst col, [])),
       pl_DataFrame = frame_of_data,
       pl_concat = (\<lambda>dfs. case dfs of
                      [] \<Rightarrow> Inl (PolarsError ''nothing to concatenate'')
                    | df # rest \<Rightarrow> concat_all df rest) \<rparr>"

text \<open>Example items in the shape the API documents for a comment thread and a video,
  and a client answering a batch request with one item that carries the requested
  identifiers (as the comment's text, as the video's id), so that the table of a batch
  shows which batch it came from.\<close>

definition no_repr :: "json \<Rightarrow> string" where
  "no_repr v = ''<repr>''"

definition reply_item :: "string \<Rightarrow> json" where
  "reply_item t = JObj [(''kind'', JStr ''youtube#comment''), (''snippet'', JObj [(''textDisplay'', JStr t)])]"

definition comment_thread :: "string \<Rightarrow> json \<Rightarrow> (string \<times> json) list \<Rightarrow> json" where
  "comment_thread t reply_cnt extra =
     JObj ([(''kind'', JStr ''youtube#commentThread''),
            (''snippet'', JObj
               [(''topLevelComment'', JObj [(''snippet'', JObj
                   [(''textDisplay'', JStr t), (''publishedAt'', JStr ''2024-01-01T00:00:00Z''),
                    (''authorDisplayName'', JStr ''ann''), (''likeCount'', JInt 3)])]),
                (''totalReplyCount'', reply_cnt)])] @ extra)"

definition video_resource :: "string \<Rightarrow> (string \<times> json) list \<Rightarrow> json \<Rightarrow> json" where
  "video_resource i tags view_cnt =
     JObj [(''kind'', JStr ''youtube#video''), (''id'', JStr i),
           (''snippet'', JObj ([(''publishedAt'', JStr ''2024-01-01T00:00:00Z''),
              (''title'', JStr ''a title''), (''description'', JStr ''a description'')] @ tags)),
           (''statistics'', JObj [(''viewCount'', view_cnt), (''likeCount'', JStr ''7''),
              (''favoriteCount'', JStr ''0''), (''commentCount'', JStr ''2'')])]"

definition requested_ids :: "(string \<times> json) list \<Rightarrow> string" where
  "requested_ids kwargs = (case map_of kwargs ''id'' of Some (JStr s) \<Rightarrow> s | _ \<Rightarrow> [])"

definition batch_pages :: "resource \<Rightarrow> (string \<times> json) list \<Rightarrow> (error + json) list" where
  "batch_pages rs kwargs =
     (case rs of
        CommentThreads \<Rightarrow>
          [Inr (items_page [comment_thread (requested_ids kwargs) (JInt 2)
                  [(''replies'', JObj [(''comments'', JList [reply_item ''r1'', reply_item ''r2''])])]])]
      | Videos \<Rightarrow>
          [Inr (items_page [video_resource (requested_ids kwargs)
                  [(''tags'', JList [JStr ''paint''])] (JStr ''10'')])]
      | Channels \<Rightarrow> []
      | PlaylistItems \<Rightarrow> [])"

definition demo_comment_frame :: "string \<Rightarrow> frame" where
  "demo_comment_frame t =
     [(''comment'', [JStr t]), (''comment_dt'', [JStr ''2024-01-01T00:00:00Z'']),
      (''user_name'', [JStr ''ann'']), (''like_cnt'', [JStr ''3'']),
      (''reply_cnt'', [JStr ''2'']), (''replies'', [JList [JStr ''r1'', JStr ''r2'']])]"

definition demo_video_frame :: "string \<Rightarrow> frame" where
  "demo_video_frame i =
     [(''video_id'', [JStr i]), (''published_dt'', [JStr ''2024-01-01T00:00:00Z'']),
      (''video_title'', [JStr ''a title'']), (''video_description'', [JStr ''a description'']),
      (''video_tags'', [JList [JStr ''paint'']]), (''view_cnt'', [JStr ''10'']),
      (''like_cnt'', [JStr ''7'']), (''fave_cnt'', [JStr ''0'']), (''comment_cnt'', [JStr ''2''])]"

text \<open>52 identifiers: 49 times \<open>a\<close>, then \<open>b\<close>, \<open>c\<close>, \<open>d\<close>.\<close>

definition ids52 :: "json list" where
  "ids52 = replicate 49 (JStr ''a'') @ [JStr ''b'', JStr ''c'', JStr ''d'']"

section \<open>Rows, column names and items of mixed kinds\<close>

text \<open>The test \<open>item["kind"] == "youtube#video"\<close> as a predicate (false when the
  subscript raises), and an item with its \<open>kind\<close> set to \<open>k\<close>: the binding is
  put in front of the keys, and the first binding of a key is the one a lookup finds.\<close>

definition is_video :: "json \<Rightarrow> bool" where
  "is_video item = (py_getitem item ''kind'' = Inr (JStr ''youtube#video''))"

definition with_kind :: "string \<Rightarrow> json \<Rightarrow> json" where
  "with_kind k item = (case item of JObj kvs \<Rightarrow> JObj ((''kind'', JStr k) # kvs) | v \<Rightarrow> v)"

text \<open>The keys of the dictionaries given to \<open>pl.DataFrame\<close>, in order.\<close>

definition comment_columns :: "string list" where
  "comment_columns = [''comment'', ''comment_dt'', ''user_name'', ''like_cnt'', ''reply_cnt'', ''replies'']"

definition video_columns :: "string list" where
  "video_columns = [''video_id'', ''published_dt'', ''video_title'', ''video_description'',
     ''video_tags'', ''view_cnt'', ''like_cnt'', ''fave_cnt'', ''comment_cnt'']"

definition mixed_comment_items :: "json list" where
  "mixed_comment_items =
     [comment_thread ''first'' (JInt 0) [],
      with_kind ''youtube#video'' (comment_thread ''second'' (JInt 0) [])]"

definition mixed_video_items :: "json list" where
  "mixed_video_items =
     [video_resource ''v1'' [(''tags'', JList [JStr ''paint''])] (JStr ''10''),
      with_kind ''youtube#channel'' (video_resource ''v2'' [(''tags'', JList [])] (JStr ''11''))]"

section \<open>Example items with and without optional parts\<close>

text \<open>A video resource whose snippet has no \<open>tags\<close> (as the API returns for a video
  without tags), and one whose \<open>tags\<close> is a given value.\<close>

definition tagless_video :: json where
  "tagless_video = video_resource ''v1'' [] (JStr ''10'')"

definition tagged_video :: "json \<Rightarrow> json" where
  "tagged_video tags = video_resource ''v1'' [(''tags'', tags)] (JStr ''10'')"

text \<open>A comment thread with \<open>totalReplyCount = n\<close>, with two replies and with no
  \<open>replies\<close> part.\<close>

definition thread_with_replies :: "int \<Rightarrow> json" where
  "thread_with_replies n =
     comment_thread ''first'' (JInt n)
       [(''replies'', JObj [(''comments'', JList [reply_item ''r1'', reply_item ''r2''])])]"

definition thread_without_replies :: "int \<Rightarrow> json" where
  "thread_without_replies n = comment_thread ''first'' (JInt n) []"

section \<open>Basic facts\<close>

lemma bindE_simps:
  "bindE (Inl e) f = Inl e"
  "bindE (Inr x) f = f x"
  by (simp_all add: bindE_def)

lemma comment_threads_items_wf:
  "list_all wf_thread_item its \<Longrightarrow>
   comment_threads_items its acc = (None, acc @ List.map_filter thread_id_of its)"
proof (induction its arbitrary: acc)
  case Nil
  then show ?case by simp
next
  case (Cons item its)
  then show ?case
    by (auto simp: wf_thread_item_def thread_id_of_def split: sum.splits if_splits)
qed

lemma video_ids_items_wf:
  "list_all wf_playlist_item its \<Longrightarrow>
   video_ids_items its acc = (None, acc @ List.map_filter video_id_of its)"
proof (induction its arbitrary: acc)
  case Nil
  then show ?case by simp
next
  case (Cons item its)
  then show ?case
    by (auto simp: wf_playlist_item_def video_id_of_def item_resource_def bindE_simps
        split: sum.splits if_splits)
qed

lemma page_items_iter:
  "page_items page = Some its \<Longrightarrow> bindE (py_getitem page ''items'') py_iter = Inr its"
  by (auto simp: page_items_def bindE_simps split: sum.splits json.splits)

lemma comment_threads_page_wf:
  assumes "execute api r = Inr page" and "wf_thread_page page"
  shows "comment_threads_page api r acc =
           (list_next api CommentThreads r page, acc @ page_thread_ids page)"
proof -
  from assms(2) obtain its where its: "page_items page = Some its"
    and wf: "list_all wf_thread_item its"
    by (auto simp: wf_thread_page_def split: option.splits)
  show ?thesis
    using assms(1) its
    by (simp add: comment_threads_page_def page_items_iter [OF its]
        comment_threads_items_wf [OF wf] page_thread_ids_def)
qed

lemma video_ids_page_wf:
  assumes "execute api r = Inr page" and "wf_playlist_page page"
  shows "video_ids_page api r acc =
           (list_next api PlaylistItems r page, acc @ page_video_ids page)"
proof -
  from assms(2) obtain its where its: "page_items page = Some its"
    and wf: "list_all wf_playlist_item its"
    by (auto simp: wf_playlist_page_def split: option.splits)
  show ?thesis
    using assms(1) its
    by (simp add: video_ids_page_def page_items_iter [OF its]
        video_ids_items_wf [OF wf] page_video_ids_def)
qed

lemma comment_threads_page_fails:
  "execute api r = Inl e \<Longrightarrow> comment_threads_page api r acc = (Inl e, acc)"
  by (simp add: comment_threads_page_def)

lemma video_ids_page_fails:
  "execute api r = Inl e \<Longrightarrow> video_ids_page api r acc = (Inl e, acc)"
  by (simp add: video_ids_page_def)

lemmas demo_defs = demo_pages_def failing_pages_def items_page_def thread_item_def playlist_item_def
  channel_item_def mock_api_def demo_threads_kwargs_def demo_playlist_kwargs_def
  comment_threads_request_def video_ids_request_def channels_request_def

lemmas wf_defs = wf_thread_page_def wf_thread_item_def page_items_def page_thread_ids_def
  thread_id_of_def wf_playlist_page_def wf_playlist_item_def page_video_ids_def
  video_id_of_def item_resource_def bindE_simps List.map_filter_def

lemma comment_threads_loop_serves:
  "serves api CommentThreads r rps \<Longrightarrow> list_all wf_thread_page (map snd rps) \<Longrightarrow>
   comment_threads_loop api (Some r) acc tr =
     Some (acc @ concat (map (\<lambda>rp. page_thread_ids (snd rp)) rps),
           tr @ map (\<lambda>rp. Execute (fst rp)) rps)"
proof (induction rps arbitrary: r acc tr)
  case Nil
  then show ?case by simp
next
  case (Cons rp rest)
  from Cons.prems have ex: "execute api r = Inr (snd rp)" and r: "fst rp = r"
    and wf: "wf_thread_page (snd rp)" and wfs: "list_all wf_thread_page (map snd rest)"
    by simp_all
  note page = comment_threads_page_wf [OF ex wf]
  show ?case
  proof (cases "list_next api CommentThreads r (snd rp)")
    case (Inl e)
    with Cons.prems show ?thesis by simp
  next
    case (Inr nxt)
    show ?thesis
    proof (cases nxt)
      case None
      with Inr Cons.prems have "rest = []" by simp
      then show ?thesis
        using Inr None r
        by (subst comment_threads_loop.simps, simp add: page)
           (subst comment_threads_loop.simps, simp)
    next
      case (Some r')
      with Inr Cons.prems have "serves api CommentThreads r' rest" by simp
      from Cons.IH [OF this wfs] show ?thesis
        using Inr Some r
        by (subst comment_threads_loop.simps) (simp add: page)
    qed
  qed
qed

lemma video_ids_loop_serves:
  "serves api PlaylistItems r rps \<Longrightarrow> list_all wf_playlist_page (map snd rps) \<Longrightarrow>
   video_ids_loop api (Some r) acc tr =
     Some (acc @ concat (map (\<lambda>rp. page_video_ids (snd rp)) rps),
           tr @ concat (map (\<lambda>rp. [Execute (fst rp), Sleep 1]) rps))"
proof (induction rps arbitrary: r acc tr)
  case Nil
  then show ?case by simp
next
  case (Cons rp rest)
  from Cons.prems have ex: "execute api r = Inr (snd rp)" and r: "fst rp = r"
    and wf: "wf_playlist_page (snd rp)" and wfs: "list_all wf_playlist_page (map snd rest)"
    by simp_all
  note page = video_ids_page_wf [OF ex wf]
  show ?case
  proof (cases "list_next api PlaylistItems r (snd rp)")
    case (Inl e)
    with Cons.prems show ?thesis by simp
  next
    case (Inr nxt)
    show ?thesis
    proof (cases nxt)
      case None
      with Inr Cons.prems have "rest = []" by simp
      then show ?thesis
        using Inr None r
        by (subst video_ids_loop.simps, simp add: page)
           (subst video_ids_loop.simps, simp)
    next
      case (Some r')
      with Inr Cons.prems have "serves api PlaylistItems r' rest" by simp
      from Cons.IH [OF this wfs] show ?thesis
        using Inr Some r
        by (subst video_ids_loop.simps) (simp add: page)
    qed
  qed
qed

lemma comment_threads_loop_fails:
  "serves_then_fails api CommentThreads r rps rf e \<Longrightarrow>
   list_all wf_thread_page (map snd rps) \<Longrightarrow>
   comment_threads_loop api (Some r) acc tr =
     Some (acc @ concat (map (\<lambda>rp. page_thread_ids (snd rp)) rps),
           tr @ map (\<lambda>rp. Execute (fst rp)) rps
              @ [Execute rf, PrintStr e, PrintTraceback e])"
proof (induction rps arbitrary: r acc tr)
  case Nil
  then show ?case
    by (subst comment_threads_loop.simps) (simp add: comment_threads_page_fails)
next
  case (Cons rp rest)
  from Cons.prems have ex: "execute api r = Inr (snd rp)" and r: "fst rp = r"
    and wf: "wf_thread_page (snd rp)" and wfs: "list_all wf_thread_page (map snd rest)"
    by simp_all
  note page = comment_threads_page_wf [OF ex wf]
  from Cons.prems obtain r' where nxt: "list_next api CommentThreads r (snd rp) = Inr (Some r')"
    and rest: "serves_then_fails api CommentThreads r' rest rf e"
    by (auto split: sum.splits option.splits)
  from Cons.IH [OF rest wfs] show ?case
    using nxt r by (subst comment_threads_loop.simps) (simp add: page)
qed

lemma video_ids_loop_fails:
  "serves_then_fails api PlaylistItems r rps rf e \<Longrightarrow>
   list_all wf_playlist_page (map snd rps) \<Longrightarrow>
   video_ids_loop api (Some r) acc tr =
     Some (acc @ concat (map (\<lambda>rp. page_video_ids (snd rp)) rps),
           tr @ concat (map (\<lambda>rp. [Execute (fst rp), Sleep 1]) rps)
              @ [Execute rf, PrintStr e, PrintTraceback e])"
proof (induction rps arbitrary: r acc tr)
  case Nil
  then show ?case
    by (subst video_ids_loop.simps) (simp add: video_ids_page_fails)
next
  case (Cons rp rest)
  from Cons.prems have ex: "execute api r = Inr (snd rp)" and r: "fst rp = r"
    and wf: "wf_playlist_page (snd rp)" and wfs: "list_all wf_playlist_page (map snd rest)"
    by simp_all
  note page = video_ids_page_wf [OF ex wf]
  from Cons.prems obtain r' where nxt: "list_next api PlaylistItems r (snd rp) = Inr (Some r')"
    and rest: "serves_then_fails api PlaylistItems r' rest rf e"
    by (auto split: sum.splits option.splits)
  from Cons.IH [OF rest wfs] show ?case
    using nxt r by (subst video_ids_loop.simps) (simp add: page)
qed

section \<open>The paginators\<close>

text \<open>
  Claim C2. Over a finite source of pages (\<open>serves\<close>: each page's \<open>list_next\<close>
  gives the next request, the last one gives \<open>None\<close>) whose items are readable,
  \<open>Video.comment_threads\<close> and \<open>Channel.video_ids\<close> return: the value is
  \<open>Some\<close>, not the \<open>None\<close> of a loop that runs on. They return exactly the
  identifiers of the items of the expected kind, in the order of the pages and of the
  items in them, items of any other kind being dropped, and they execute one request
  per page.
\<close>

theorem paginator_returns_matching_items:
  "(serves api CommentThreads (comment_threads_request api video_id) rps \<and>
    list_all wf_thread_page (map snd rps) \<longrightarrow>
    comment_threads api video_id =
      Some (Inr (concat (map (\<lambda>rp. page_thread_ids (snd rp)) rps)),
            map (\<lambda>rp. Execute (fst rp)) rps @ [Sleep 1])) \<and>
   (uploads_id api channel_handle = (Inr playlist, tr0) \<and>
    serves api PlaylistItems (video_ids_request api playlist) rps \<and>
    list_all wf_playlist_page (map snd rps) \<longrightarrow>
    video_ids api channel_handle =
      Some (Inr (concat (map (\<lambda>rp. page_video_ids (snd rp)) rps)),
            tr0 @ concat (map (\<lambda>rp. [Execute (fst rp), Sleep 1]) rps)))"
proof (intro conjI impI)
  assume "serves api CommentThreads (comment_threads_request api video_id) rps \<and>
    list_all wf_thread_page (map snd rps)"
  then have s: "serves api CommentThreads (comment_threads_request api video_id) rps"
    and w: "list_all wf_thread_page (map snd rps)" by simp_all
  show "comment_threads api video_id =
      Some (Inr (concat (map (\<lambda>rp. page_thread_ids (snd rp)) rps)),
            map (\<lambda>rp. Execute (fst rp)) rps @ [Sleep 1])"
    by (simp add: comment_threads_def comment_threads_loop_serves [OF s w])
next
  assume "uploads_id api channel_handle = (Inr playlist, tr0) \<and>
    serves api PlaylistItems (video_ids_request api playlist) rps \<and>
    list_all wf_playlist_page (map snd rps)"
  then have u: "uploads_id api channel_handle = (Inr playlist, tr0)"
    and s: "serves api PlaylistItems (video_ids_request api playlist) rps"
    and w: "list_all wf_playlist_page (map snd rps)" by simp_all
  show "video_ids api channel_handle =
      Some (Inr (concat (map (\<lambda>rp. page_video_ids (snd rp)) rps)),
            tr0 @ concat (map (\<lambda>rp. [Execute (fst rp), Sleep 1]) rps))"
    by (simp add: video_ids_def u video_ids_loop_serves [OF s w])
qed

theorem paginator_returns_matching_items_witness:
  "comment_threads (mock_api demo_pages) ''vid'' =
     Some (Inr [JStr ''t1'', JStr ''t2'', JStr ''t3''],
           [Execute (CommentThreads, demo_threads_kwargs, 0),
            Execute (CommentThreads, demo_threads_kwargs, 1), Sleep 1]) \<and>
   video_ids (mock_api demo_pages) ''@handle'' =
     Some (Inr [JStr ''v1'', JStr ''v2''],
           [Execute (Channels,
              [(''part'', JStr ''id,contentDetails''), (''forHandle'', JStr ''@handle'')], 0),
            Sleep 1,
            Execute (PlaylistItems, demo_playlist_kwargs, 0), Sleep 1,
            Execute (PlaylistItems, demo_playlist_kwargs, 1), Sleep 1])"
proof -
  have u: "uploads_id (mock_api demo_pages) ''@handle'' =
      (Inr (JStr ''UU1''),
       [Execute (Channels,
          [(''part'', JStr ''id,contentDetails''), (''forHandle'', JStr ''@handle'')], 0),
        Sleep 1])"
    by (simp add: uploads_id_def demo_defs bindE_simps)
  have a: "comment_threads (mock_api demo_pages) ''vid'' =
     Some (Inr [JStr ''t1'', JStr ''t2'', JStr ''t3''],
           [Execute (CommentThreads, demo_threads_kwargs, 0),
            Execute (CommentThreads, demo_threads_kwargs, 1), Sleep 1])"
    using paginator_returns_matching_items
      [of "mock_api demo_pages" "''vid''"
        "[((CommentThreads, demo_threads_kwargs, 0), projr (demo_pages CommentThreads [] ! 0)),
          ((CommentThreads, demo_threads_kwargs, 1), projr (demo_pages CommentThreads [] ! 1))]"]
    by (simp add: demo_defs wf_defs)
  have b: "video_ids (mock_api demo_pages) ''@handle'' =
     Some (Inr [JStr ''v1'', JStr ''v2''],
           [Execute (Channels,
              [(''part'', JStr ''id,contentDetails''), (''forHandle'', JStr ''@handle'')], 0),
            Sleep 1,
            Execute (PlaylistItems, demo_playlist_kwargs, 0), Sleep 1,
            Execute (PlaylistItems, demo_playlist_kwargs, 1), Sleep 1])"
    using paginator_returns_matching_items
      [of "mock_api demo_pages" _
        "[((PlaylistItems, demo_playlist_kwargs, 0), projr (demo_pages PlaylistItems [] ! 0)),
          ((PlaylistItems, demo_playlist_kwargs, 1), projr (demo_pages PlaylistItems [] ! 1))]"
        "''@handle''" "JStr ''UU1''"] u
    by (simp add: demo_defs wf_defs)
  from a b show ?thesis by simp
qed

text \<open>
  Claim C3. When the request for a page raises (\<open>serves_then_fails\<close>: the pages
  of \<open>rps\<close> are answered, then executing \<open>rf\<close> raises \<open>e\<close>), the paginators return
  normally (\<open>Inr\<close>), with exactly the identifiers gathered from the pages before the
  failure; the error is printed, as its text and as a traceback, and no request is
  executed after the failing one.
\<close>

theorem paginator_partial_on_failure:
  "(serves_then_fails api CommentThreads (comment_threads_request api video_id) rps rf e \<and>
    list_all wf_thread_page (map snd rps) \<longrightarrow>
    comment_threads api video_id =
      Some (Inr (concat (map (\<lambda>rp. page_thread_ids (snd rp)) rps)),
            map (\<lambda>rp. Execute (fst rp)) rps
              @ [Execute rf, PrintStr e, PrintTraceback e, Sleep 1])) \<and>
   (uploads_id api channel_handle = (Inr playlist, tr0) \<and>
    serves_then_fails api PlaylistItems (video_ids_request api playlist) rps rf e \<and>
    list_all wf_playlist_page (map snd rps) \<longrightarrow>
    video_ids api channel_handle =
      Some (Inr (concat (map (\<lambda>rp. page_video_ids (snd rp)) rps)),
            tr0 @ concat (map (\<lambda>rp. [Execute (fst rp), Sleep 1]) rps)
              @ [Execute rf, PrintStr e, PrintTraceback e]))"
proof (intro conjI impI)
  assume "serves_then_fails api CommentThreads (comment_threads_request api video_id) rps rf e \<and>
    list_all wf_thread_page (map snd rps)"
  then have s: "serves_then_fails api CommentThreads (comment_threads_request api video_id) rps rf e"
    and w: "list_all wf_thread_page (map snd rps)" by simp_all
  show "comment_threads api video_id =
      Some (Inr (concat (map (\<lambda>rp. page_thread_ids (snd rp)) rps)),
            map (\<lambda>rp. Execute (fst rp)) rps
              @ [Execute rf, PrintStr e, PrintTraceback e, Sleep 1])"
    by (simp add: comment_threads_def comment_threads_loop_fails [OF s w])
next
  assume "uploads_id api channel_handle = (Inr playlist, tr0) \<and>
    serves_then_fails api PlaylistItems (video_ids_request api playlist) rps rf e \<and>
    list_all wf_playlist_page (map snd rps)"
  then have u: "uploads_id api channel_handle = (Inr playlist, tr0)"
    and s: "serves_then_fails api PlaylistItems (video_ids_request api playlist) rps rf e"
    and w: "list_all wf_playlist_page (map snd rps)" by simp_all
  show "video_ids api channel_handle =
      Some (Inr (concat (map (\<lambda>rp. page_video_ids (snd rp)) rps)),
            tr0 @ concat (map (\<lambda>rp. [Execute (fst rp), Sleep 1]) rps)
              @ [Execute rf, PrintStr e, PrintTraceback e])"
    by (simp add: video_ids_def u video_ids_loop_fails [OF s w])
qed

theorem paginator_partial_on_failure_witness:
  "comment_threads (mock_api failing_pages) ''vid'' =
     Some (Inr [JStr ''t1'', JStr ''t2''],
           [Execute (CommentThreads, demo_threads_kwargs, 0),
            Execute (CommentThreads, demo_threads_kwargs, 1),
            PrintStr (HttpError ''quotaExceeded''),
            PrintTraceback (HttpError ''quotaExceeded''), Sleep 1]) \<and>
   video_ids (mock_api failing_pages) ''@handle'' =
     Some (Inr [JStr ''v1''],
           [Execute (Channels,
              [(''part'', JStr ''id,contentDetails''), (''forHandle'', JStr ''@handle'')], 0),
            Sleep 1,
            Execute (PlaylistItems, demo_playlist_kwargs, 0), Sleep 1,
            Execute (PlaylistItems, demo_playlist_kwargs, 1),
            PrintStr (HttpError ''quotaExceeded''),
            PrintTraceback (HttpError ''quotaExceeded'')])"
proof -
  have u: "uploads_id (mock_api failing_pages) ''@handle'' =
      (Inr (JStr ''UU1''),
       [Execute (Channels,
          [(''part'', JStr ''id,contentDetails''), (''forHandle'', JStr ''@handle'')], 0),
        Sleep 1])"
    by (simp add: uploads_id_def demo_defs bindE_simps)
  have a: "comment_threads (mock_api failing_pages) ''vid'' =
     Some (Inr [JStr ''t1'', JStr ''t2''],
           [Execute (CommentThreads, demo_threads_kwargs, 0),
            Execute (CommentThreads, demo_threads_kwargs, 1),
            PrintStr (HttpError ''quotaExceeded''),
            PrintTraceback (HttpError ''quotaExceeded''), Sleep 1])"
    using paginator_partial_on_failure
      [of "mock_api failing_pages" "''vid''"
        "[((CommentThreads, demo_threads_kwargs, 0), projr (failing_pages CommentThreads [] ! 0))]"
        "(CommentThreads, demo_threads_kwargs, 1)" "HttpError ''quotaExceeded''"]
    by (simp add: demo_defs wf_defs)
  have b: "video_ids (mock_api failing_pages) ''@handle'' =
     Some (Inr [JStr ''v1''],
           [Execute (Channels,
              [(''part'', JStr ''id,contentDetails''), (''forHandle'', JStr ''@handle'')], 0),
            Sleep 1,
            Execute (PlaylistItems, demo_playlist_kwargs, 0), Sleep 1,
            Execute (PlaylistItems, demo_playlist_kwargs, 1),
            PrintStr (HttpError ''quotaExceeded''),
            PrintTraceback (HttpError ''quotaExceeded'')])"
    using paginator_partial_on_failure
      [of "mock_api failing_pages" _
        "[((PlaylistItems, demo_playlist_kwargs, 0), projr (failing_pages PlaylistItems [] ! 0))]"
        "(PlaylistItems, demo_playlist_kwargs, 1)" "HttpError ''quotaExceeded''"
        "''@handle''" "JStr ''UU1''"] u
    by (simp add: demo_defs wf_defs)
  from a b show ?thesis by simp
qed

section \<open>The resolvers\<close>

text \<open>
  Claim C7. When the response to the channel lookup holds more than one item,
  \<open>Channel.channel_id\<close> and \<open>Channel.uploads_id\<close> raise their
  \<open>RuntimeError\<close> and return no identifier; nothing but the request has happened
  by then.
\<close>

theorem resolver_ambiguity:
  "execute api (channels_request api channel_handle) = Inr response \<and>
   bindE (py_getitem response ''items'') py_len = Inr n \<and> 1 < n \<longrightarrow>
   channel_id api channel_handle =
     (Inl (RuntimeError ''More than one response received, handle is ambiguous''),
      [Execute (channels_request api channel_handle)]) \<and>
   uploads_id api channel_handle =
     (Inl (RuntimeError ''More than one response received, channel id ambiguous''),
      [Execute (channels_request api channel_handle)])"
  by (simp add: channel_id_def uploads_id_def Let_def)

theorem resolver_ambiguity_witness:
  "channel_id (mock_api ambiguous_pages) ''@handle'' =
     (Inl (RuntimeError ''More than one response received, handle is ambiguous''),
      [Execute (Channels,
         [(''part'', JStr ''id,contentDetails''), (''forHandle'', JStr ''@handle'')], 0)]) \<and>
   uploads_id (mock_api ambiguous_pages) ''@handle'' =
     (Inl (RuntimeError ''More than one response received, channel id ambiguous''),
      [Execute (Channels,
         [(''part'', JStr ''id,contentDetails''), (''forHandle'', JStr ''@handle'')], 0)])"
  using resolver_ambiguity [of "mock_api ambiguous_pages" "''@handle''"
      "items_page [channel_item ''UC1'' ''UU1'', channel_item ''UC2'' ''UU2'']" 2]
  by (simp add: ambiguous_pages_def demo_defs bindE_simps)

lemma py_index_empty:
  "py_len items = Inr 0 \<Longrightarrow> py_index items 0 = Inl IndexError \<or> py_index items 0 = Inl (KeyError ''0'')"
  by (cases items) auto

text \<open>
  Claim C8. When the response to the channel lookup holds no item, both resolvers get
  past the ambiguity check, sleep, and raise at \<open>response["items"][0]\<close>: a lookup
  error (\<open>IndexError\<close> when \<open>items\<close> is the empty list), which is not the
  ambiguity error.
\<close>

theorem resolver_empty:
  "execute api (channels_request api channel_handle) = Inr response \<and>
   py_getitem response ''items'' = Inr items \<and> py_len items = Inr 0 \<longrightarrow>
   (\<exists>e. channel_id api channel_handle =
          (Inl e, [Execute (channels_request api channel_handle), Sleep 1]) \<and>
        uploads_id api channel_handle =
          (Inl e, [Execute (channels_request api channel_handle), Sleep 1]) \<and>
        lookup_error e \<and> \<not> ambiguity_error e \<and> (items = JList [] \<longrightarrow> e = IndexError))"
proof (intro impI)
  assume h: "execute api (channels_request api channel_handle) = Inr response \<and>
   py_getitem response ''items'' = Inr items \<and> py_len items = Inr 0"
  then have "py_index items 0 = Inl IndexError \<or> py_index items 0 = Inl (KeyError ''0'')"
    by (simp add: py_index_empty)
  then show "\<exists>e. channel_id api channel_handle =
          (Inl e, [Execute (channels_request api channel_handle), Sleep 1]) \<and>
        uploads_id api channel_handle =
          (Inl e, [Execute (channels_request api channel_handle), Sleep 1]) \<and>
        lookup_error e \<and> \<not> ambiguity_error e \<and> (items = JList [] \<longrightarrow> e = IndexError)"
    using h
    by (auto simp: channel_id_def uploads_id_def Let_def bindE_simps lookup_error_def
        ambiguity_error_def)
qed

theorem resolver_empty_witness:
  "channel_id (mock_api empty_pages) ''@handle'' =
     (Inl IndexError,
      [Execute (Channels,
         [(''part'', JStr ''id,contentDetails''), (''forHandle'', JStr ''@handle'')], 0),
       Sleep 1]) \<and>
   uploads_id (mock_api empty_pages) ''@handle'' =
     (Inl IndexError,
      [Execute (Channels,
         [(''part'', JStr ''id,contentDetails''), (''forHandle'', JStr ''@handle'')], 0),
       Sleep 1])"
  using resolver_empty [of "mock_api empty_pages" "''@handle''" "items_page []" "JList []"]
  by (auto simp: empty_pages_def demo_defs bindE_simps)

section \<open>Batching\<close>

lemma fetch_comments_loop_ok:
  "(\<forall>i \<in> set is. fetch_comment_batch pl api py_repr (py_slice ids i (i + 50)) =
      (Inr (frame (py_slice ids i (i + 50))), eff (py_slice ids i (i + 50)))) \<Longrightarrow>
   (\<forall>k < length is.
      pl_concat pl [foldl cat df (map (\<lambda>i. frame (py_slice ids i (i + 50))) (take k is)),
                    frame (py_slice ids (is ! k) (is ! k + 50))] =
        Inr (cat (foldl cat df (map (\<lambda>i. frame (py_slice ids i (i + 50))) (take k is)))
                 (frame (py_slice ids (is ! k) (is ! k + 50))))) \<Longrightarrow>
   fetch_comments_loop pl api py_repr ids is df tr =
     (Inr (foldl cat df (map (\<lambda>i. frame (py_slice ids i (i + 50))) is)),
      tr @ concat (map (\<lambda>i. eff (py_slice ids i (i + 50)) @ [Sleep 1]) is))"
proof (induction "is" arbitrary: df tr)
  case Nil
  show ?case by simp
next
  case (Cons i "is")
  from Cons.prems(1) have f: "fetch_comment_batch pl api py_repr (py_slice ids i (i + 50)) =
      (Inr (frame (py_slice ids i (i + 50))), eff (py_slice ids i (i + 50)))" by simp
  from Cons.prems(2) [rule_format, of 0]
  have c: "pl_concat pl [df, frame (py_slice ids i (i + 50))] =
      Inr (cat df (frame (py_slice ids i (i + 50))))" by simp
  have rest: "\<forall>k < length is.
      pl_concat pl [foldl cat (cat df (frame (py_slice ids i (i + 50))))
                      (map (\<lambda>i. frame (py_slice ids i (i + 50))) (take k is)),
                    frame (py_slice ids (is ! k) (is ! k + 50))] =
        Inr (cat (foldl cat (cat df (frame (py_slice ids i (i + 50))))
                    (map (\<lambda>i. frame (py_slice ids i (i + 50))) (take k is)))
                 (frame (py_slice ids (is ! k) (is ! k + 50))))"
  proof (intro allI impI)
    fix k assume "k < length is"
    then have "Suc k < length (i # is)" by simp
    from Cons.prems(2) [rule_format, OF this]
    show "pl_concat pl [foldl cat (cat df (frame (py_slice ids i (i + 50))))
                      (map (\<lambda>i. frame (py_slice ids i (i + 50))) (take k is)),
                    frame (py_slice ids (is ! k) (is ! k + 50))] =
        Inr (cat (foldl cat (cat df (frame (py_slice ids i (i + 50))))
                    (map (\<lambda>i. frame (py_slice ids i (i + 50))) (take k is)))
                 (frame (py_slice ids (is ! k) (is ! k + 50))))"
      by simp
  qed
  from Cons.prems(1) have "\<forall>j \<in> set is. fetch_comment_batch pl api py_repr (py_slice ids j (j + 50)) =
      (Inr (frame (py_slice ids j (j + 50))), eff (py_slice ids j (j + 50)))" by simp
  from Cons.IH [OF this rest] show ?case by (simp add: f c)
qed

lemma fetch_videos_loop_ok:
  "(\<forall>i \<in> set is. fetch_video_batch pl api (py_slice ids i (i + 50)) =
      (Inr (frame (py_slice ids i (i + 50))), eff (py_slice ids i (i + 50)))) \<Longrightarrow>
   (\<forall>k < length is.
      pl_concat pl [foldl cat df (map (\<lambda>i. frame (py_slice ids i (i + 50))) (take k is)),
                    frame (py_slice ids (is ! k) (is ! k + 50))] =
        Inr (cat (foldl cat df (map (\<lambda>i. frame (py_slice ids i (i + 50))) (take k is)))
                 (frame (py_slice ids (is ! k) (is ! k + 50))))) \<Longrightarrow>
   fetch_videos_loop pl api ids is df tr =
     (Inr (foldl cat df (map (\<lambda>i. frame (py_slice ids i (i + 50))) is)),
      tr @ concat (map (\<lambda>i. eff (py_slice ids i (i + 50)) @ [Sleep 1]) is))"
proof (induction "is" arbitrary: df tr)
  case Nil
  show ?case by simp
next
  case (Cons i "is")
  from Cons.prems(1) have f: "fetch_video_batch pl api (py_slice ids i (i + 50)) =
      (Inr (frame (py_slice ids i (i + 50))), eff (py_slice ids i (i + 50)))" by simp
  from Cons.prems(2) [rule_format, of 0]
  have c: "pl_concat pl [df, frame (py_slice ids i (i + 50))] =
      Inr (cat df (frame (py_slice ids i (i + 50))))" by simp
  have rest: "\<forall>k < length is.
      pl_concat pl [foldl cat (cat df (frame (py_slice ids i (i + 50))))
                      (map (\<lambda>i. frame (py_slice ids i (i + 50))) (take k is)),
                    frame (py_slice ids (is ! k) (is ! k + 50))] =
        Inr (cat (foldl cat (cat df (frame (py_slice ids i (i + 50))))
                    (map (\<lambda>i. frame (py_slice ids i (i + 50))) (take k is)))
                 (frame (py_slice ids (is ! k) (is ! k + 50))))"
  proof (intro allI impI)
    fix k assume "k < length is"
    then have "Suc k < length (i # is)" by simp
    from Cons.prems(2) [rule_format, OF this]
    show "pl_concat pl [foldl cat (cat df (frame (py_slice ids i (i + 50))))
                      (map (\<lambda>i. frame (py_slice ids i (i + 50))) (take k is)),
                    frame (py_slice ids (is ! k) (is ! k + 50))] =
        Inr (cat (foldl cat (cat df (frame (py_slice ids i (i + 50))))
                    (map (\<lambda>i. frame (py_slice ids i (i + 50))) (take k is)))
                 (frame (py_slice ids (is ! k) (is ! k + 50))))"
      by simp
  qed
  from Cons.prems(1) have "\<forall>j \<in> set is. fetch_video_batch pl api (py_slice ids j (j + 50)) =
      (Inr (frame (py_slice ids j (j + 50))), eff (py_slice ids j (j + 50)))" by simp
  from Cons.IH [OF this rest] show ?case by (simp add: f c)
qed

lemma py_join_strs: "py_join sep (map JStr ss) = Inr (join_strs sep ss)"
proof -
  have "those (map json_str (map JStr ss)) = Some ss"
    by (induction ss) simp_all
  then show ?thesis by (simp add: py_join_def)
qed

declare py_range.simps [simp del]

lemma py_range_50:
  "py_range s n 50 = (if s < n then s # py_range (s + 50) n 50 else [])"
  by (subst py_range.simps) simp

lemma range_step_arith: "s < n \<Longrightarrow> Suc ((n - (s + 50) + 49) div 50) = (n - s + 49) div (50::nat)"
proof (cases "s + 50 \<le> n")
  case True
  then have "n - s + 49 = (n - (s + 50) + 49) + 50" by simp
  then show ?thesis by (simp only: div_add_self2)
next
  case False
  assume "s < n"
  with False have a: "n - (s + 50) = 0" and b: "50 \<le> n - s + 49" and c: "n - s + 49 < 100" by simp_all
  from b c have "(n - s + 49) div 50 = 1" by simp
  with a show ?thesis by simp
qed

lemma length_py_range: "length (py_range s n 50) = (n - s + 49) div 50"
proof (induction "n - s" arbitrary: s rule: less_induct)
  case less
  show ?case
  proof (cases "s < n")
    case True
    then have "n - (s + 50) < n - s" by arith
    from less [OF this] have "length (py_range (s + 50) n 50) = (n - (s + 50) + 49) div 50" .
    with True show ?thesis
      by (subst py_range_50) (simp add: range_step_arith)
  next
    case False
    then show ?thesis by (subst py_range_50) simp
  qed
qed

lemma set_py_range: "i \<in> set (py_range s n 50) \<Longrightarrow> s \<le> i \<and> i < n"
proof (induction "n - s" arbitrary: s rule: less_induct)
  case less
  show ?case
  proof (cases "s < n")
    case True
    then have d: "n - (s + 50) < n - s" by simp
    from less.prems True have "i = s \<or> i \<in> set (py_range (s + 50) n 50)"
      by (subst (asm) py_range_50) simp
    then show ?thesis
    proof
      assume "i = s"
      with True show ?thesis by simp
    next
      assume "i \<in> set (py_range (s + 50) n 50)"
      from less.hyps [OF d this] show ?thesis by simp
    qed
  next
    case False
    with less.prems show ?thesis by (subst (asm) py_range_50) simp
  qed
qed

lemma slice_drop: "py_slice xs s (s + k) @ drop (s + k) xs = drop s xs"
proof (cases "s \<le> length xs")
  case True
  have "drop s xs = drop s (take (s + k) xs @ drop (s + k) xs)" by simp
  also have "\<dots> = drop s (take (s + k) xs) @ drop (s - length (take (s + k) xs)) (drop (s + k) xs)"
    by (rule drop_append)
  also from True have "s - length (take (s + k) xs) = 0" by simp
  finally show ?thesis by (simp add: py_slice_def)
next
  case False
  then show ?thesis by (simp add: py_slice_def)
qed

lemma concat_slices:
  "concat (map (\<lambda>i. py_slice xs i (i + 50)) (py_range s (length xs) 50)) = drop s xs"
proof (induction "length xs - s" arbitrary: s rule: less_induct)
  case less
  show ?case
  proof (cases "s < length xs")
    case True
    then have "length xs - (s + 50) < length xs - s" by simp
    from less [OF this]
    have "concat (map (\<lambda>i. py_slice xs i (i + 50)) (py_range (s + 50) (length xs) 50))
        = drop (s + 50) xs" .
    with True show ?thesis
      by (subst py_range_50) (simp add: slice_drop)
  next
    case False
    then show ?thesis by (subst py_range_50) simp
  qed
qed

lemma length_batches: "length (batches ids) = (length ids + 49) div 50"
  by (simp add: batches_def length_py_range)

lemma concat_batches: "concat (batches ids) = ids"
  by (simp add: batches_def concat_slices)

lemma batch_size:
  assumes "b \<in> set (batches ids)"
  shows "0 < length b \<and> length b \<le> 50"
proof -
  from assms obtain i where i: "i \<in> set (py_range 0 (length ids) 50)"
    and b: "b = py_slice ids i (i + 50)"
    by (auto simp: batches_def)
  from set_py_range [OF i] have "i < length ids" by simp
  with b show ?thesis by (simp add: py_slice_def)
qed

lemma batches_nth:
  "k < length (batches ids) \<Longrightarrow>
   batches ids ! k = py_slice ids (py_range 0 (length ids) 50 ! k) (py_range 0 (length ids) 50 ! k + 50)"
  by (simp add: batches_def)

lemma demo_batches:
  "batches ids52 = [replicate 49 (JStr ''a'') @ [JStr ''b''], [JStr ''c'', JStr ''d'']]"
  by (simp add: ids52_def batches_def py_range_50 py_slice_def)

lemmas batch_demo_defs = mock_api_def batch_pages_def items_page_def comment_thread_def
  reply_item_def video_resource_def demo_polars_def no_repr_def requested_ids_def
  frame_of_data_def comment_batch_request_def video_batch_request_def

lemmas flatten_defs = comment_batch_data_def comment_item_def item_replies_def
  no_comments_def comment_data_def video_batch_data_def video_item_def no_videos_def
  video_data_def bindE_simps str_int_def

lemma demo_fetch_comment_batch:
  "fetch_comment_batch demo_polars (mock_api batch_pages) no_repr (map JStr ss) =
   (Inr (demo_comment_frame (join_strs '','' ss)),
    [Execute (CommentThreads, [(''part'', JStr ''snippet,replies''), (''id'', JStr (join_strs '','' ss)),
        (''maxResults'', JInt 50)], 0)])"
  by (simp add: fetch_comment_batch_def py_join_strs batch_demo_defs flatten_defs demo_comment_frame_def)

lemma demo_fetch_video_batch:
  "fetch_video_batch demo_polars (mock_api batch_pages) (map JStr ss) =
   (Inr (demo_video_frame (join_strs '','' ss)),
    [Execute (Videos, [(''part'', JStr ''id,snippet,statistics''), (''id'', JStr (join_strs '','' ss)),
        (''maxResults'', JInt 50)], 0)])"
  by (simp add: fetch_video_batch_def py_join_strs batch_demo_defs flatten_defs demo_video_frame_def)

lemma demo_concat: "pl_concat demo_polars [a, b] = concat_frames a b"
  by (simp add: demo_polars_def split: sum.splits)

text \<open>
  Claim C1. The batches a fetch makes of \<open>N\<close> identifiers (the slices
  \<open>ids[i : i + 50]\<close> for \<open>i\<close> in \<open>range(0, N, 50)\<close>, in loop order) are
  \<open>\<lceil>N / 50\<rceil>\<close> in number, none for \<open>N = 0\<close>; each holds between 1 and 50
  identifiers; and concatenated in order they are the original list. When every batch
  fetch returns a table, and each \<open>pl.concat\<close> the loop makes (of the table
  accumulated from the first \<open>k\<close> batches with the table of batch \<open>k\<close>) succeeds,
  \<open>fetch_comments\<close> and \<open>fetch_videos\<close> return the tables of the batches concatenated
  onto the empty schema frame from left to right, first batch first, and their requests
  and sleeps happen in that same order. Nothing is assumed of \<open>pl.concat\<close> on other
  tables: it may fail on them.
\<close>

theorem fetch_batches_in_order:
  "length (batches ids) = (length ids + 49) div 50 \<and>
   (\<forall>b \<in> set (batches ids). 0 < length b \<and> length b \<le> 50) \<and>
   concat (batches ids) = ids \<and>
   ((\<forall>b \<in> set (batches ids).
       fetch_comment_batch pl api py_repr b = (Inr (frame b), eff b)) \<and>
    (\<forall>k < length (batches ids).
       pl_concat pl
         [foldl cat (pl_schema_frame pl comment_schema) (map frame (take k (batches ids))),
          frame (batches ids ! k)] =
       Inr (cat (foldl cat (pl_schema_frame pl comment_schema) (map frame (take k (batches ids))))
                (frame (batches ids ! k)))) \<longrightarrow>
    fetch_comments_of pl api py_repr ids tr =
      (Inr (foldl cat (pl_schema_frame pl comment_schema) (map frame (batches ids))),
       tr @ concat (map (\<lambda>b. eff b @ [Sleep 1]) (batches ids)))) \<and>
   ((\<forall>b \<in> set (batches ids).
       fetch_video_batch pl api b = (Inr (frame b), eff b)) \<and>
    (\<forall>k < length (batches ids).
       pl_concat pl
         [foldl cat (pl_schema_frame pl video_schema) (map frame (take k (batches ids))),
          frame (batches ids ! k)] =
       Inr (cat (foldl cat (pl_schema_frame pl video_schema) (map frame (take k (batches ids))))
                (frame (batches ids ! k)))) \<longrightarrow>
    fetch_videos_of pl api ids tr =
      (Inr (foldl cat (pl_schema_frame pl video_schema) (map frame (batches ids))),
       tr @ concat (map (\<lambda>b. eff b @ [Sleep 1]) (batches ids))))"
proof (intro conjI impI ballI)
  show "length (batches ids) = (length ids + 49) div 50" by (rule length_batches)
  show "concat (batches ids) = ids" by (rule concat_batches)
next
  fix b assume "b \<in> set (batches ids)"
  then show "0 < length b" and "length b \<le> 50" using batch_size by blast+
next
  assume h: "(\<forall>b \<in> set (batches ids).
       fetch_comment_batch pl api py_repr b = (Inr (frame b), eff b)) \<and>
    (\<forall>k < length (batches ids).
       pl_concat pl
         [foldl cat (pl_schema_frame pl comment_schema) (map frame (take k (batches ids))),
          frame (batches ids ! k)] =
       Inr (cat (foldl cat (pl_schema_frame pl comment_schema) (map frame (take k (batches ids))))
                (frame (batches ids ! k))))"
  from h have f: "\<forall>i \<in> set (py_range 0 (length ids) 50).
      fetch_comment_batch pl api py_repr (py_slice ids i (i + 50)) =
        (Inr (frame (py_slice ids i (i + 50))), eff (py_slice ids i (i + 50)))"
    by (simp add: batches_def)
  from h have c: "\<forall>k < length (py_range 0 (length ids) 50).
      pl_concat pl
        [foldl cat (pl_schema_frame pl comment_schema)
           (map (\<lambda>i. frame (py_slice ids i (i + 50))) (take k (py_range 0 (length ids) 50))),
         frame (py_slice ids (py_range 0 (length ids) 50 ! k) (py_range 0 (length ids) 50 ! k + 50))] =
      Inr (cat (foldl cat (pl_schema_frame pl comment_schema)
                  (map (\<lambda>i. frame (py_slice ids i (i + 50))) (take k (py_range 0 (length ids) 50))))
               (frame (py_slice ids (py_range 0 (length ids) 50 ! k) (py_range 0 (length ids) 50 ! k + 50))))"
    by (simp add: batches_def take_map comp_def)
  from fetch_comments_loop_ok [OF f c]
  show "fetch_comments_of pl api py_repr ids tr =
      (Inr (foldl cat (pl_schema_frame pl comment_schema) (map frame (batches ids))),
       tr @ concat (map (\<lambda>b. eff b @ [Sleep 1]) (batches ids)))"
    by (simp add: fetch_comments_of_def batches_def comp_def)
next
  assume h: "(\<forall>b \<in> set (batches ids).
       fetch_video_batch pl api b = (Inr (frame b), eff b)) \<and>
    (\<forall>k < length (batches ids).
       pl_concat pl
         [foldl cat (pl_schema_frame pl video_schema) (map frame (take k (batches ids))),
          frame (batches ids ! k)] =
       Inr (cat (foldl cat (pl_schema_frame pl video_schema) (map frame (take k (batches ids))))
                (frame (batches ids ! k))))"
  from h have f: "\<forall>i \<in> set (py_range 0 (length ids) 50).
      fetch_video_batch pl api (py_slice ids i (i + 50)) =
        (Inr (frame (py_slice ids i (i + 50))), eff (py_slice ids i (i + 50)))"
    by (simp add: batches_def)
  from h have c: "\<forall>k < length (py_range 0 (length ids) 50).
      pl_concat pl
        [foldl cat (pl_schema_frame pl video_schema)
           (map (\<lambda>i. frame (py_slice ids i (i + 50))) (take k (py_range 0 (length ids) 50))),
         frame (py_slice ids (py_range 0 (length ids) 50 ! k) (py_range 0 (length ids) 50 ! k + 50))] =
      Inr (cat (foldl cat (pl_schema_frame pl video_schema)
                  (map (\<lambda>i. frame (py_slice ids i (i + 50))) (take k (py_range 0 (length ids) 50))))
               (frame (py_slice ids (py_range 0 (length ids) 50 ! k) (py_range 0 (length ids) 50 ! k + 50))))"
    by (simp add: batches_def take_map comp_def)
  from fetch_videos_loop_ok [OF f c]
  show "fetch_videos_of pl api ids tr =
      (Inr (foldl cat (pl_schema_frame pl video_schema) (map frame (batches ids))),
       tr @ concat (map (\<lambda>b. eff b @ [Sleep 1]) (batches ids)))"
    by (simp add: fetch_videos_of_def batches_def comp_def)
qed

theorem fetch_batches_in_order_witness:
  "batches ids52 = [replicate 49 (JStr ''a'') @ [JStr ''b''], [JStr ''c'', JStr ''d'']] \<and>
   fetch_comments_of demo_polars (mock_api batch_pages) no_repr ids52 [] =
     (Inr [(''comment'', [JStr (join_strs '','' (replicate 49 ''a'' @ [''b''])), JStr ''c,d'']),
           (''comment_dt'', [JStr ''2024-01-01T00:00:00Z'', JStr ''2024-01-01T00:00:00Z'']),
           (''user_name'', [JStr ''ann'', JStr ''ann'']),
           (''like_cnt'', [JStr ''3'', JStr ''3'']),
           (''reply_cnt'', [JStr ''2'', JStr ''2'']),
           (''replies'', [JList [JStr ''r1'', JStr ''r2''], JList [JStr ''r1'', JStr ''r2'']])],
      [Execute (CommentThreads,
         [(''part'', JStr ''snippet,replies''),
          (''id'', JStr (join_strs '','' (replicate 49 ''a'' @ [''b'']))),
          (''maxResults'', JInt 50)], 0),
       Sleep 1,
       Execute (CommentThreads,
         [(''part'', JStr ''snippet,replies''), (''id'', JStr ''c,d''),
          (''maxResults'', JInt 50)], 0),
       Sleep 1]) \<and>
   fetch_videos_of demo_polars (mock_api batch_pages) ids52 [] =
     (Inr [(''video_id'', [JStr (join_strs '','' (replicate 49 ''a'' @ [''b''])), JStr ''c,d'']),
           (''published_dt'', [JStr ''2024-01-01T00:00:00Z'', JStr ''2024-01-01T00:00:00Z'']),
           (''video_title'', [JStr ''a title'', JStr ''a title'']),
           (''video_description'', [JStr ''a description'', JStr ''a description'']),
           (''video_tags'', [JList [JStr ''paint''], JList [JStr ''paint'']]),
           (''view_cnt'', [JStr ''10'', JStr ''10'']),
           (''like_cnt'', [JStr ''7'', JStr ''7'']),
           (''fave_cnt'', [JStr ''0'', JStr ''0'']),
           (''comment_cnt'', [JStr ''2'', JStr ''2''])],
      [Execute (Videos,
         [(''part'', JStr ''id,snippet,statistics''),
          (''id'', JStr (join_strs '','' (replicate 49 ''a'' @ [''b'']))),
          (''maxResults'', JInt 50)], 0),
       Sleep 1,
       Execute (Videos,
         [(''part'', JStr ''id,snippet,statistics''), (''id'', JStr ''c,d''),
          (''maxResults'', JInt 50)], 0),
       Sleep 1])"
proof -
  let ?B1 = "replicate 49 (JStr ''a'') @ [JStr ''b'']"
  let ?B2 = "[JStr ''c'', JStr ''d'']"
  let ?s1 = "join_strs '','' (replicate 49 ''a'' @ [''b''])"
  let ?ids_of = "\<lambda>b. join_strs '','' (map (\<lambda>v. the (json_str v)) b)"
  let ?cframe = "\<lambda>b. demo_comment_frame (?ids_of b)"
  let ?vframe = "\<lambda>b. demo_video_frame (?ids_of b)"
  let ?ceff = "\<lambda>b. [Execute (CommentThreads, [(''part'', JStr ''snippet,replies''),
                (''id'', JStr (?ids_of b)), (''maxResults'', JInt 50)], 0 :: nat)]"
  let ?veff = "\<lambda>b. [Execute (Videos, [(''part'', JStr ''id,snippet,statistics''),
                (''id'', JStr (?ids_of b)), (''maxResults'', JInt 50)], 0 :: nat)]"
  have b: "batches ids52 = [?B1, ?B2]" by (rule demo_batches)
  have i1: "?ids_of ?B1 = ?s1" by simp
  have i2: "?ids_of ?B2 = ''c,d''" by simp
  have c1: "fetch_comment_batch demo_polars (mock_api batch_pages) no_repr ?B1 =
      (Inr (?cframe ?B1), ?ceff ?B1)"
    using demo_fetch_comment_batch [of "replicate 49 ''a'' @ [''b'']"] by simp
  have c2: "fetch_comment_batch demo_polars (mock_api batch_pages) no_repr ?B2 =
      (Inr (?cframe ?B2), ?ceff ?B2)"
    using demo_fetch_comment_batch [of "[''c'', ''d'']"] by simp
  have v1: "fetch_video_batch demo_polars (mock_api batch_pages) ?B1 =
      (Inr (?vframe ?B1), ?veff ?B1)"
    using demo_fetch_video_batch [of "replicate 49 ''a'' @ [''b'']"] by simp
  have v2: "fetch_video_batch demo_polars (mock_api batch_pages) ?B2 =
      (Inr (?vframe ?B2), ?veff ?B2)"
    using demo_fetch_video_batch [of "[''c'', ''d'']"] by simp
  have cc: "\<forall>k < length (batches ids52).
       pl_concat demo_polars
         [foldl append_rows (pl_schema_frame demo_polars comment_schema)
            (map ?cframe (take k (batches ids52))),
          ?cframe (batches ids52 ! k)] =
       Inr (append_rows (foldl append_rows (pl_schema_frame demo_polars comment_schema)
                           (map ?cframe (take k (batches ids52))))
                        (?cframe (batches ids52 ! k)))"
    unfolding b demo_concat
    by (simp add: numeral_2_eq_2 All_less_Suc concat_frames_def append_rows_def
        demo_polars_def comment_schema_def demo_comment_frame_def)
  have vc: "\<forall>k < length (batches ids52).
       pl_concat demo_polars
         [foldl append_rows (pl_schema_frame demo_polars video_schema)
            (map ?vframe (take k (batches ids52))),
          ?vframe (batches ids52 ! k)] =
       Inr (append_rows (foldl append_rows (pl_schema_frame demo_polars video_schema)
                           (map ?vframe (take k (batches ids52))))
                        (?vframe (batches ids52 ! k)))"
    unfolding b demo_concat
    by (simp add: numeral_2_eq_2 All_less_Suc concat_frames_def append_rows_def
        demo_polars_def video_schema_def demo_video_frame_def)
  have cf: "\<forall>b \<in> set (batches ids52).
      fetch_comment_batch demo_polars (mock_api batch_pages) no_repr b = (Inr (?cframe b), ?ceff b)"
    unfolding b using c1 c2 by simp
  have vf: "\<forall>b \<in> set (batches ids52).
      fetch_video_batch demo_polars (mock_api batch_pages) b = (Inr (?vframe b), ?veff b)"
    unfolding b using v1 v2 by simp
  note t = fetch_batches_in_order
    [of ids52 demo_polars "mock_api batch_pages" no_repr ?cframe ?ceff append_rows "[]"]
  note u = fetch_batches_in_order
    [of ids52 demo_polars "mock_api batch_pages" no_repr ?vframe ?veff append_rows "[]"]
  from t cf cc have p1: "fetch_comments_of demo_polars (mock_api batch_pages) no_repr ids52 [] =
      (Inr (foldl append_rows (pl_schema_frame demo_polars comment_schema)
              (map ?cframe (batches ids52))),
       concat (map (\<lambda>b. ?ceff b @ [Sleep 1]) (batches ids52)))"
    by simp
  from u vf vc have p2: "fetch_videos_of demo_polars (mock_api batch_pages) ids52 [] =
      (Inr (foldl append_rows (pl_schema_frame demo_polars video_schema)
              (map ?vframe (batches ids52))),
       concat (map (\<lambda>b. ?veff b @ [Sleep 1]) (batches ids52)))"
    by simp
  show ?thesis
    unfolding p1 p2 unfolding b
    by (simp add: append_rows_def demo_polars_def comment_schema_def video_schema_def
        demo_comment_frame_def demo_video_frame_def)
qed

section \<open>The flatteners, field by field\<close>

lemma json_path_snoc:
  "json_path v (ks @ [k]) =
     (case json_path v ks of Inl e \<Rightarrow> Inl e | Inr v' \<Rightarrow> py_getitem v' k)"
  by (induction ks arbitrary: v) (simp_all split: sum.splits)

lemma absent_KeyError: "absent item p \<Longrightarrow> json_path item p = Inl (KeyError (last p))"
proof -
  assume a: "absent item p"
  then have "p = butlast p @ [last p]" by (simp add: absent_def)
  then have "json_path item p = json_path item (butlast p @ [last p])" by simp
  also from a have "\<dots> = Inl (KeyError (last p))"
    unfolding json_path_snoc
    by (auto simp: absent_def split: sum.splits json.splits)
  finally show ?thesis .
qed

lemma read_all_first_error:
  "find (\<lambda>p. \<not> readable item p) ps = Some p \<Longrightarrow> json_path item p = Inl e \<Longrightarrow>
   read_all item ps = Inl e"
  by (induction ps) (auto simp: readable_def split: sum.splits if_splits)

lemma read_all_ok:
  "list_all (readable item) ps \<Longrightarrow>
   read_all item ps = Inr (map (\<lambda>p. projr (json_path item p)) ps)"
  by (induction ps) (auto simp: readable_def split: sum.splits if_splits)

lemmas ci_defs = comment_item_def comment_fields_def bindE_def

lemma comment_item_read_all:
  "comment_item py_repr item cl =
     (case read_all item comment_fields of
        Inl e \<Rightarrow> Inl e
      | Inr vs \<Rightarrow>
          (case item_replies item (vs ! 7) of
             Inl e \<Rightarrow> Inl e
           | Inr texts \<Rightarrow>
               Inr \<lparr> comments = comments cl @ [vs ! 3],
                     comment_dts = comment_dts cl @ [vs ! 4],
                     user_names = user_names cl @ [vs ! 5],
                     like_cnts = like_cnts cl @ [JStr (py_str py_repr (vs ! 6))],
                     reply_cnts = reply_cnts cl @ [JStr (py_str py_repr (vs ! 7))],
                     replies = replies cl @ [JList texts] \<rparr>))"
  apply (cases "py_getitem item ''snippet''")
  subgoal by (simp add: ci_defs)
  subgoal for snippet
    apply (cases "py_getitem snippet ''topLevelComment''")
    subgoal by (simp add: ci_defs)
    subgoal for top_level
      apply (cases "py_getitem top_level ''snippet''")
      subgoal by (simp add: ci_defs)
      subgoal for top_comment
        apply (cases "py_getitem top_comment ''textDisplay''")
        subgoal by (simp add: ci_defs)
        apply (cases "py_getitem top_comment ''publishedAt''")
        subgoal by (simp add: ci_defs)
        apply (cases "py_getitem top_comment ''authorDisplayName''")
        subgoal by (simp add: ci_defs)
        apply (cases "py_getitem top_comment ''likeCount''")
        subgoal by (simp add: ci_defs)
        apply (cases "py_getitem snippet ''totalReplyCount''")
        subgoal by (simp add: ci_defs)
        subgoal by (simp add: ci_defs split: sum.splits)
        done
      done
    done
  done

lemmas vi_defs = video_item_def video_fields_def bindE_def

lemma video_item_read_all:
  "video_item item vl =
     (case py_getitem item ''kind'' of
        Inl e \<Rightarrow> Inl e
      | Inr kind \<Rightarrow>
          if kind = JStr ''youtube#video''
          then (case read_all item video_fields of
                  Inl e \<Rightarrow> Inl e
                | Inr vs \<Rightarrow>
                    Inr \<lparr> batch_video_ids = batch_video_ids vl @ [vs ! 0],
                          published_dts = published_dts vl @ [vs ! 2],
                          video_titles = video_titles vl @ [vs ! 3],
                          video_descriptions = video_descriptions vl @ [vs ! 4],
                          video_tags = video_tags vl @ [vs ! 5],
                          view_cnts = view_cnts vl @ [vs ! 7],
                          video_like_cnts = video_like_cnts vl @ [vs ! 8],
                          fave_cnts = fave_cnts vl @ [vs ! 9],
                          comment_cnts = comment_cnts vl @ [vs ! 10] \<rparr>)
          else Inr vl)"
  apply (cases "py_getitem item ''kind''")
  subgoal by (simp add: vi_defs)
  apply (cases "py_getitem item ''id''")
  subgoal by (simp add: vi_defs)
  apply (cases "py_getitem item ''snippet''")
  subgoal by (simp add: vi_defs)
  subgoal for kind video_id snippet
    apply (cases "py_getitem snippet ''publishedAt''")
    subgoal by (simp add: vi_defs)
    apply (cases "py_getitem snippet ''title''")
    subgoal by (simp add: vi_defs)
    apply (cases "py_getitem snippet ''description''")
    subgoal by (simp add: vi_defs)
    apply (cases "py_getitem snippet ''tags''")
    subgoal by (simp add: vi_defs)
    apply (cases "py_getitem item ''statistics''")
    subgoal by (simp add: vi_defs)
    subgoal for a b c d stats
      apply (cases "py_getitem stats ''viewCount''")
      subgoal by (simp add: vi_defs)
      apply (cases "py_getitem stats ''likeCount''")
      subgoal by (simp add: vi_defs)
      apply (cases "py_getitem stats ''favoriteCount''")
      subgoal by (simp add: vi_defs)
      apply (cases "py_getitem stats ''commentCount''")
      subgoal by (simp add: vi_defs)
      subgoal by (simp add: vi_defs)
      done
    done
  done

section \<open>Which items become rows\<close>

lemma comment_item_lengths:
  "comment_item py_repr item cl = Inr cl' \<Longrightarrow>
   list_all (\<lambda>c. length (snd c) = Suc n) (comment_data cl') =
   list_all (\<lambda>c. length (snd c) = n) (comment_data cl)"
  by (auto simp: comment_item_read_all comment_data_def split: sum.splits)

lemma comment_items_lengths:
  "comment_items py_repr its cl = Inr cl' \<Longrightarrow>
   list_all (\<lambda>c. length (snd c) = n) (comment_data cl) \<Longrightarrow>
   list_all (\<lambda>c. length (snd c) = n + length its) (comment_data cl')"
proof (induction its arbitrary: cl n)
  case Nil
  then show ?case by simp
next
  case (Cons item its)
  from Cons.prems(1) obtain cl1 where 1: "comment_item py_repr item cl = Inr cl1"
    and 2: "comment_items py_repr its cl1 = Inr cl'"
    by (auto split: sum.splits)
  from comment_item_lengths [OF 1, of n] Cons.prems(2)
  have "list_all (\<lambda>c. length (snd c) = Suc n) (comment_data cl1)" by simp
  from Cons.IH [OF 2 this] show ?case by simp
qed

lemma video_item_lengths:
  "video_item item vl = Inr vl' \<Longrightarrow>
   list_all (\<lambda>c. length (snd c) = (if is_video item then Suc n else n)) (video_data vl') =
   list_all (\<lambda>c. length (snd c) = n) (video_data vl)"
  by (auto simp: video_item_read_all video_data_def is_video_def split: sum.splits if_splits)

lemma video_items_lengths:
  "video_items its vl = Inr vl' \<Longrightarrow>
   list_all (\<lambda>c. length (snd c) = n) (video_data vl) \<Longrightarrow>
   list_all (\<lambda>c. length (snd c) = n + length (filter is_video its)) (video_data vl')"
proof (induction its arbitrary: vl n)
  case Nil
  then show ?case by simp
next
  case (Cons item its)
  from Cons.prems(1) obtain vl1 where 1: "video_item item vl = Inr vl1"
    and 2: "video_items its vl1 = Inr vl'"
    by (auto split: sum.splits)
  from video_item_lengths [OF 1, of n] Cons.prems(2)
  have 3: "list_all (\<lambda>c. length (snd c) = (if is_video item then Suc n else n)) (video_data vl1)"
    by simp
  from Cons.IH [OF 2 3] show ?case by (cases "is_video item") simp_all
qed

lemma item_replies_ignores_kind:
  "item_replies (JObj ((''kind'', k) # kvs)) reply_cnt = item_replies (JObj kvs) reply_cnt"
proof -
  have "py_getitem (JObj ((''kind'', k) # kvs)) ''replies'' = py_getitem (JObj kvs) ''replies''"
    by simp
  then show ?thesis by (simp only: item_replies_def)
qed

lemma comment_item_ignores_kind:
  "comment_item py_repr (JObj ((''kind'', k) # kvs)) cl = comment_item py_repr (JObj kvs) cl"
proof -
  have "py_getitem (JObj ((''kind'', k) # kvs)) ''snippet'' = py_getitem (JObj kvs) ''snippet''"
    by simp
  then show ?thesis by (simp only: comment_item_def item_replies_ignores_kind)
qed

lemma comment_data_names: "map fst (comment_data cl) = comment_columns"
  by (simp add: comment_data_def comment_columns_def)

lemma video_data_names: "map fst (video_data vl) = video_columns"
  by (simp add: video_data_def video_columns_def)

lemma comment_batch_rows:
  assumes "py_getitem response ''items'' = Inr (JList its)"
    and "comment_batch_data py_repr response = Inr cols"
  shows "map fst cols = comment_columns \<and> list_all (\<lambda>c. length (snd c) = length its) cols"
proof -
  from assms obtain cl where 1: "comment_items py_repr its no_comments = Inr cl"
    and 2: "cols = comment_data cl"
    by (auto simp: comment_batch_data_def bindE_def split: sum.splits)
  have "list_all (\<lambda>c. length (snd c) = 0) (comment_data no_comments)"
    by (simp add: comment_data_def no_comments_def)
  from comment_items_lengths [OF 1 this] 2 show ?thesis
    by (simp add: comment_data_names)
qed

lemma video_batch_rows:
  assumes "py_getitem response ''items'' = Inr (JList its)"
    and "video_batch_data response = Inr cols"
  shows "map fst cols = video_columns \<and>
         list_all (\<lambda>c. length (snd c) = length (filter is_video its)) cols"
proof -
  from assms obtain vl where 1: "video_items its no_videos = Inr vl"
    and 2: "cols = video_data vl"
    by (auto simp: video_batch_data_def bindE_def split: sum.splits)
  have "list_all (\<lambda>c. length (snd c) = 0) (video_data no_videos)"
    by (simp add: video_data_def no_videos_def)
  from video_items_lengths [OF 1 this] 2 show ?thesis
    by (simp add: video_data_names)
qed

lemma video_item_drops:
  "py_getitem item ''kind'' = Inr k \<Longrightarrow> k \<noteq> JStr ''youtube#video'' \<Longrightarrow> video_item item vl = Inr vl"
  by (simp add: video_item_def bindE_def)

text \<open>
  Claim C10. \<open>_fetch_comment_batch\<close> makes one row of every item of the response: when
  it flattens a response, each of its six columns has as many cells as the response has
  items, and the row made of an item does not depend on the item's \<open>kind\<close>, which is
  never read (an item flattens the same with any \<open>kind\<close> put in front of its keys).
  \<open>_fetch_video_batch\<close> and the paginator filter: the columns of a flattened video
  response have as many cells as the response has items of kind \<open>youtube#video\<close>, an
  item of another kind leaves the lists as they are, without an error, and the paginator
  steps over an item whose kind is not \<open>youtube#commentThread\<close>.
\<close>

theorem comment_batch_keeps_every_item:
  "(py_getitem response ''items'' = Inr (JList its) \<and>
    comment_batch_data py_repr response = Inr cols \<longrightarrow>
      map fst cols = comment_columns \<and> list_all (\<lambda>c. length (snd c) = length its) cols) \<and>
   comment_item py_repr (JObj ((''kind'', k) # kvs)) cl = comment_item py_repr (JObj kvs) cl \<and>
   (py_getitem vresponse ''items'' = Inr (JList vits) \<and>
    video_batch_data vresponse = Inr vcols \<longrightarrow>
      map fst vcols = video_columns \<and>
      list_all (\<lambda>c. length (snd c) = length (filter is_video vits)) vcols) \<and>
   (py_getitem item ''kind'' = Inr k' \<and> k' \<noteq> JStr ''youtube#video'' \<longrightarrow>
      video_item item vl = Inr vl \<and> video_items (item # items) vl = video_items items vl) \<and>
   (py_getitem item ''kind'' = Inr k' \<and> k' \<noteq> JStr ''youtube#commentThread'' \<longrightarrow>
      comment_threads_items (item # items) cts = comment_threads_items items cts)"
proof (intro conjI impI)
  assume "py_getitem response ''items'' = Inr (JList its) \<and>
    comment_batch_data py_repr response = Inr cols"
  then show "map fst cols = comment_columns"
    and "list_all (\<lambda>c. length (snd c) = length its) cols"
    using comment_batch_rows by blast+
next
  show "comment_item py_repr (JObj ((''kind'', k) # kvs)) cl = comment_item py_repr (JObj kvs) cl"
    by (rule comment_item_ignores_kind)
next
  assume "py_getitem vresponse ''items'' = Inr (JList vits) \<and>
    video_batch_data vresponse = Inr vcols"
  then show "map fst vcols = video_columns"
    and "list_all (\<lambda>c. length (snd c) = length (filter is_video vits)) vcols"
    using video_batch_rows by blast+
next
  assume h: "py_getitem item ''kind'' = Inr k' \<and> k' \<noteq> JStr ''youtube#video''"
  then show v: "video_item item vl = Inr vl" by (simp add: video_item_drops)
  then show "video_items (item # items) vl = video_items items vl" by simp
next
  assume "py_getitem item ''kind'' = Inr k' \<and> k' \<noteq> JStr ''youtube#commentThread''"
  then show "comment_threads_items (item # items) cts = comment_threads_items items cts"
    by simp
qed

lemma mixed_comment_data:
  "comment_batch_data no_repr (items_page mixed_comment_items) =
     Inr [(''comment'', [JStr ''first'', JStr ''second'']),
          (''comment_dt'', [JStr ''2024-01-01T00:00:00Z'', JStr ''2024-01-01T00:00:00Z'']),
          (''user_name'', [JStr ''ann'', JStr ''ann'']),
          (''like_cnt'', [JStr ''3'', JStr ''3'']),
          (''reply_cnt'', [JStr ''0'', JStr ''0'']),
          (''replies'', [JList [], JList []])]"
  by (simp add: mixed_comment_items_def with_kind_def items_page_def comment_thread_def flatten_defs)

lemma mixed_video_data:
  "video_batch_data (items_page mixed_video_items) =
     Inr [(''video_id'', [JStr ''v1'']), (''published_dt'', [JStr ''2024-01-01T00:00:00Z'']),
          (''video_title'', [JStr ''a title'']), (''video_description'', [JStr ''a description'']),
          (''video_tags'', [JList [JStr ''paint'']]), (''view_cnt'', [JStr ''10'']),
          (''like_cnt'', [JStr ''7'']), (''fave_cnt'', [JStr ''0'']), (''comment_cnt'', [JStr ''2''])]"
  by (simp add: mixed_video_items_def with_kind_def items_page_def video_resource_def flatten_defs)

theorem comment_batch_keeps_every_item_witness:
  "py_getitem (items_page mixed_comment_items) ''items'' = Inr (JList mixed_comment_items) \<and>
   comment_batch_data no_repr (items_page mixed_comment_items) =
     Inr [(''comment'', [JStr ''first'', JStr ''second'']),
          (''comment_dt'', [JStr ''2024-01-01T00:00:00Z'', JStr ''2024-01-01T00:00:00Z'']),
          (''user_name'', [JStr ''ann'', JStr ''ann'']),
          (''like_cnt'', [JStr ''3'', JStr ''3'']),
          (''reply_cnt'', [JStr ''0'', JStr ''0'']),
          (''replies'', [JList [], JList []])] \<and>
   length mixed_comment_items = 2 \<and>
   py_getitem (items_page mixed_video_items) ''items'' = Inr (JList mixed_video_items) \<and>
   video_batch_data (items_page mixed_video_items) =
     Inr [(''video_id'', [JStr ''v1'']), (''published_dt'', [JStr ''2024-01-01T00:00:00Z'']),
          (''video_title'', [JStr ''a title'']), (''video_description'', [JStr ''a description'']),
          (''video_tags'', [JList [JStr ''paint'']]), (''view_cnt'', [JStr ''10'']),
          (''like_cnt'', [JStr ''7'']), (''fave_cnt'', [JStr ''0'']), (''comment_cnt'', [JStr ''2''])] \<and>
   length (filter is_video mixed_video_items) = 1 \<and>
   py_getitem (mixed_video_items ! 1) ''kind'' = Inr (JStr ''youtube#channel'') \<and>
   video_items mixed_video_items no_videos = video_items [mixed_video_items ! 0] no_videos \<and>
   comment_threads_items [mixed_video_items ! 1, thread_item ''t1''] [] = (None, [JStr ''t1''])"
  using comment_batch_keeps_every_item
    [of "items_page mixed_comment_items" mixed_comment_items no_repr
        "projr (comment_batch_data no_repr (items_page mixed_comment_items))"
        "JStr ''youtube#video''" "[]" no_comments
        "items_page mixed_video_items" mixed_video_items
        "projr (video_batch_data (items_page mixed_video_items))"
        "mixed_video_items ! 1" "JStr ''youtube#channel''" no_videos "[]" "[]"]
  by (simp add: mixed_comment_data mixed_video_data)
    (simp add: mixed_comment_items_def mixed_video_items_def with_kind_def items_page_def
       video_resource_def comment_thread_def is_video_def thread_item_def flatten_defs)

section \<open>Tags\<close>

lemma read_all_Inr:
  "read_all item ps = Inr vs \<Longrightarrow> vs = map (\<lambda>p. projr (json_path item p)) ps"
  by (induction ps arbitrary: vs) (auto split: sum.splits)

lemma read_all_readable:
  "list_all (readable item) ps \<Longrightarrow>
   read_all item ps = Inr (map (\<lambda>p. projr (json_path item p)) ps)"
  by (rule read_all_ok)

lemma video_item_ok:
  assumes v: "is_video item" and r: "list_all (readable item) video_fields"
  shows "video_item item vl =
     Inr \<lparr> batch_video_ids = batch_video_ids vl @ [projr (json_path item [''id''])],
           published_dts = published_dts vl @ [projr (json_path item [''snippet'', ''publishedAt''])],
           video_titles = video_titles vl @ [projr (json_path item [''snippet'', ''title''])],
           video_descriptions =
             video_descriptions vl @ [projr (json_path item [''snippet'', ''description''])],
           video_tags = video_tags vl @ [projr (json_path item [''snippet'', ''tags''])],
           view_cnts = view_cnts vl @ [projr (json_path item [''statistics'', ''viewCount''])],
           video_like_cnts =
             video_like_cnts vl @ [projr (json_path item [''statistics'', ''likeCount''])],
           fave_cnts = fave_cnts vl @ [projr (json_path item [''statistics'', ''favoriteCount''])],
           comment_cnts =
             comment_cnts vl @ [projr (json_path item [''statistics'', ''commentCount''])] \<rparr>"
proof -
  from v have k: "py_getitem item ''kind'' = Inr (JStr ''youtube#video'')"
    by (simp add: is_video_def)
  have ra: "read_all item video_fields = Inr (map (\<lambda>p. projr (json_path item p)) video_fields)"
    using r by (rule read_all_ok)
  show ?thesis
    unfolding video_item_read_all k ra by (simp add: video_fields_def)
qed

lemma video_item_fails:
  assumes v: "is_video item"
    and f: "find (\<lambda>p. \<not> readable item p) video_fields = Some p"
    and e: "json_path item p = Inl e"
  shows "video_item item vl = Inl e"
proof -
  from v have k: "py_getitem item ''kind'' = Inr (JStr ''youtube#video'')"
    by (simp add: is_video_def)
  from read_all_first_error [OF f e] show ?thesis
    unfolding video_item_read_all k by simp
qed

lemma find_first_unreadable:
  "list_all Q (takeWhile (\<lambda>q. q \<noteq> p) ps) \<Longrightarrow> p \<in> set ps \<Longrightarrow> \<not> Q p \<Longrightarrow>
   find (\<lambda>p. \<not> Q p) ps = Some p"
  by (induction ps) (auto split: if_splits)

lemma absent_unreadable: "absent item p \<Longrightarrow> \<not> readable item p"
  by (simp add: readable_def absent_KeyError)

text \<open>
  Claim C6, as the code has it. A video item whose fields are all there has its
  \<open>tags\<close> value appended to \<open>video_tags\<close> as it is, whatever it is (a list of
  strings, an empty list, \<open>None\<close>). A video item without \<open>tags\<close> in its snippet, the
  fields read before it being there, is not flattened: \<open>snippet["tags"]\<close> raises
  \<open>KeyError\<close>, and so does the loop over the items.
\<close>

theorem video_tags_as_given:
  "(is_video item \<and> list_all (readable item) video_fields \<and>
    json_path item [''snippet'', ''tags''] = Inr t \<longrightarrow>
      (\<exists>vl'. video_item item vl = Inr vl' \<and> video_tags vl' = video_tags vl @ [t])) \<and>
   (is_video item \<and>
    list_all (readable item) (takeWhile (\<lambda>p. p \<noteq> [''snippet'', ''tags'']) video_fields) \<and>
    absent item [''snippet'', ''tags''] \<longrightarrow>
      video_item item vl = Inl (KeyError ''tags'') \<and>
      video_items (item # items) vl = Inl (KeyError ''tags''))"
proof (intro conjI impI; elim conjE)
  assume v: "is_video item"
    and r: "list_all (readable item) video_fields"
    and t: "json_path item [''snippet'', ''tags''] = Inr t"
  show "\<exists>vl'. video_item item vl = Inr vl' \<and> video_tags vl' = video_tags vl @ [t]"
    unfolding video_item_ok [OF v r] t by simp
next
  assume v: "is_video item"
    and a: "absent item [''snippet'', ''tags'']"
    and r: "list_all (readable item) (takeWhile (\<lambda>p. p \<noteq> [''snippet'', ''tags'']) video_fields)"
  have f: "find (\<lambda>p. \<not> readable item p) video_fields = Some [''snippet'', ''tags'']"
  proof (rule find_first_unreadable)
    show "list_all (readable item) (takeWhile (\<lambda>p. p \<noteq> [''snippet'', ''tags'']) video_fields)"
      by (rule r)
    show "[''snippet'', ''tags''] \<in> set video_fields" by (simp add: video_fields_def)
    show "\<not> readable item [''snippet'', ''tags'']" using a by (rule absent_unreadable)
  qed
  from absent_KeyError [OF a] have e: "json_path item [''snippet'', ''tags''] = Inl (KeyError ''tags'')"
    by simp
  from video_item_fails [OF v f e]
  show 1: "video_item item vl = Inl (KeyError ''tags'')" .
  then show "video_items (item # items) vl = Inl (KeyError ''tags'')" by simp
qed

lemmas video_demo_defs = tagged_video_def tagless_video_def video_resource_def is_video_def
  readable_def absent_def video_fields_def

theorem video_tags_as_given_witness:
  "is_video (tagged_video JNull) \<and> list_all (readable (tagged_video JNull)) video_fields \<and>
   json_path (tagged_video JNull) [''snippet'', ''tags''] = Inr JNull \<and>
   (\<exists>vl'. video_item (tagged_video JNull) no_videos = Inr vl' \<and> video_tags vl' = [JNull]) \<and>
   (\<exists>vl'. video_item (tagged_video (JList [JStr ''paint'', JStr ''oil''])) no_videos = Inr vl' \<and>
          video_tags vl' = [JList [JStr ''paint'', JStr ''oil'']]) \<and>
   is_video tagless_video \<and> absent tagless_video [''snippet'', ''tags''] \<and>
   video_item tagless_video no_videos = Inl (KeyError ''tags'') \<and>
   video_items [tagless_video, tagged_video JNull] no_videos = Inl (KeyError ''tags'')"
proof -
  have 1: "is_video (tagged_video tags)" for tags
    by (simp add: tagged_video_def video_resource_def is_video_def)
  have 2: "list_all (readable (tagged_video tags)) video_fields" for tags
    by (simp add: video_demo_defs)
  have 3: "json_path (tagged_video tags) [''snippet'', ''tags''] = Inr tags" for tags
    by (simp add: tagged_video_def video_resource_def)
  have 4: "is_video tagless_video"
    by (simp add: tagless_video_def video_resource_def is_video_def)
  have 5: "absent tagless_video [''snippet'', ''tags'']"
    by (simp add: tagless_video_def video_resource_def absent_def)
  have 6: "list_all (readable tagless_video)
      (takeWhile (\<lambda>p. p \<noteq> [''snippet'', ''tags'']) video_fields)"
    by (simp add: video_demo_defs)
  have 7: "video_tags no_videos = []" by (simp add: no_videos_def)
  from video_tags_as_given [of "tagged_video JNull" JNull no_videos "[]"]
    video_tags_as_given [of "tagged_video (JList [JStr ''paint'', JStr ''oil''])"
      "JList [JStr ''paint'', JStr ''oil'']" no_videos "[]"]
    video_tags_as_given [of tagless_video JNull no_videos "[tagged_video JNull]"]
  show ?thesis
    by (simp add: 1 2 3 4 5 6 7 del: json_path.simps)
qed

theorem video_without_tags_raises:
  "video_batch_data (items_page [tagless_video]) = Inl (KeyError ''tags'') \<and>
   fetch_video_batch demo_polars (mock_api (\<lambda>rs kwargs. [Inr (items_page [tagless_video])]))
     [JStr ''v1''] =
     (Inl (KeyError ''tags''),
      [Execute (Videos, [(''part'', JStr ''id,snippet,statistics''), (''id'', JStr ''v1''),
         (''maxResults'', JInt 50)], 0)])"
  by (simp add: tagless_video_def video_resource_def items_page_def flatten_defs
      fetch_video_batch_def py_join_def mock_api_def video_batch_request_def)

section \<open>Replies\<close>

lemma comment_item_ok:
  assumes r: "list_all (readable item) comment_fields"
  shows "comment_item py_repr item cl =
     (case item_replies item (projr (json_path item [''snippet'', ''totalReplyCount''])) of
        Inl e \<Rightarrow> Inl e
      | Inr texts \<Rightarrow>
          Inr \<lparr> comments = comments cl @
                   [projr (json_path item [''snippet'', ''topLevelComment'', ''snippet'', ''textDisplay''])],
                comment_dts = comment_dts cl @
                   [projr (json_path item [''snippet'', ''topLevelComment'', ''snippet'', ''publishedAt''])],
                user_names = user_names cl @
                   [projr (json_path item
                      [''snippet'', ''topLevelComment'', ''snippet'', ''authorDisplayName''])],
                like_cnts = like_cnts cl @
                   [JStr (py_str py_repr (projr (json_path item
                      [''snippet'', ''topLevelComment'', ''snippet'', ''likeCount''])))],
                reply_cnts = reply_cnts cl @
                   [JStr (py_str py_repr (projr (json_path item [''snippet'', ''totalReplyCount''])))],
                replies = replies cl @ [JList texts] \<rparr>)"
proof -
  have ra: "read_all item comment_fields = Inr (map (\<lambda>p. projr (json_path item p)) comment_fields)"
    using r by (rule read_all_ok)
  show ?thesis
    unfolding comment_item_read_all ra
    by (simp add: comment_fields_def del: json_path.simps split: sum.splits)
qed

lemma comment_item_fails:
  assumes f: "find (\<lambda>p. \<not> readable item p) comment_fields = Some p"
    and e: "json_path item p = Inl e"
  shows "comment_item py_repr item cl = Inl e"
  using read_all_first_error [OF f e] unfolding comment_item_read_all by simp

lemma reply_texts_ok:
  "map (\<lambda>r. json_path r [''snippet'', ''textDisplay'']) reps = map Inr ts \<Longrightarrow>
   reply_texts reps = Inr ts"
proof (induction reps arbitrary: ts)
  case Nil
  then show ?case by simp
next
  case (Cons r reps)
  then obtain t ts' where ts: "ts = t # ts'" by (cases ts) auto
  from Cons.prems ts have 1: "json_path r [''snippet'', ''textDisplay''] = Inr t"
    and 2: "map (\<lambda>r. json_path r [''snippet'', ''textDisplay'']) reps = map Inr ts'"
    by simp_all
  from 1 have "bindE (py_getitem r ''snippet'') (\<lambda>snippet. py_getitem snippet ''textDisplay'') = Inr t"
    by (simp add: bindE_def split: sum.splits)
  with Cons.IH [OF 2] ts show ?case by simp
qed

lemma item_replies_none: "n \<le> 0 \<Longrightarrow> item_replies item (JInt n) = Inr []"
  by (simp add: item_replies_def bindE_def)

lemma item_replies_some:
  assumes "0 < n"
    and c: "json_path item [''replies'', ''comments''] = Inr (JList reps)"
    and t: "map (\<lambda>r. json_path r [''snippet'', ''textDisplay'']) reps = map Inr ts"
  shows "item_replies item (JInt n) = Inr ts"
proof -
  from c obtain rs where 1: "py_getitem item ''replies'' = Inr rs"
    and 2: "py_getitem rs ''comments'' = Inr (JList reps)"
    by (auto split: sum.splits)
  from assms(1) show ?thesis
    by (simp add: item_replies_def bindE_def 1 2 reply_texts_ok [OF t])
qed

lemma item_replies_absent:
  assumes "0 < n" and a: "absent item [''replies'']"
  shows "item_replies item (JInt n) = Inl (KeyError ''replies'')"
proof -
  from absent_KeyError [OF a] have "py_getitem item ''replies'' = Inl (KeyError ''replies'')"
    by (simp split: sum.splits)
  with assms(1) show ?thesis by (simp add: item_replies_def bindE_def)
qed

text \<open>
  Claim C4, as the code has it. For a comment-thread item whose snippet fields are all
  there, with \<open>totalReplyCount = n\<close>: when \<open>n\<close> is 0 (or less) the entry appended to
  \<open>replies\<close> is the empty list, whether or not the item carries replies; when
  \<open>n > 0\<close> and the item carries \<open>replies.comments\<close>, the entry is the list of the
  replies' \<open>snippet.textDisplay\<close>, in the order of \<open>comments\<close>; when \<open>n > 0\<close> and the
  item has no \<open>replies\<close>, \<open>item["replies"]\<close> raises \<open>KeyError\<close>, no row is made and
  the loop over the items ends with that error.
\<close>

theorem replies_of_thread:
  "(list_all (readable item) comment_fields \<and>
    json_path item [''snippet'', ''totalReplyCount''] = Inr (JInt n) \<and> n \<le> 0 \<longrightarrow>
      (\<exists>cl'. comment_item py_repr item cl = Inr cl' \<and> replies cl' = replies cl @ [JList []])) \<and>
   (list_all (readable item) comment_fields \<and>
    json_path item [''snippet'', ''totalReplyCount''] = Inr (JInt n) \<and> 0 < n \<and>
    json_path item [''replies'', ''comments''] = Inr (JList reps) \<and>
    map (\<lambda>r. json_path r [''snippet'', ''textDisplay'']) reps = map Inr ts \<longrightarrow>
      (\<exists>cl'. comment_item py_repr item cl = Inr cl' \<and> replies cl' = replies cl @ [JList ts])) \<and>
   (list_all (readable item) comment_fields \<and>
    json_path item [''snippet'', ''totalReplyCount''] = Inr (JInt n) \<and> 0 < n \<and>
    absent item [''replies''] \<longrightarrow>
      comment_item py_repr item cl = Inl (KeyError ''replies'') \<and>
      comment_items py_repr (item # items) cl = Inl (KeyError ''replies''))"
proof (intro conjI impI; elim conjE)
  assume r: "list_all (readable item) comment_fields"
    and c: "json_path item [''snippet'', ''totalReplyCount''] = Inr (JInt n)"
    and n: "n \<le> 0"
  show "\<exists>cl'. comment_item py_repr item cl = Inr cl' \<and> replies cl' = replies cl @ [JList []]"
    unfolding comment_item_ok [OF r] c by (simp add: item_replies_none [OF n])
next
  assume r: "list_all (readable item) comment_fields"
    and c: "json_path item [''snippet'', ''totalReplyCount''] = Inr (JInt n)"
    and n: "0 < n"
    and rs: "json_path item [''replies'', ''comments''] = Inr (JList reps)"
    and ts: "map (\<lambda>r. json_path r [''snippet'', ''textDisplay'']) reps = map Inr ts"
  show "\<exists>cl'. comment_item py_repr item cl = Inr cl' \<and> replies cl' = replies cl @ [JList ts]"
    unfolding comment_item_ok [OF r] c by (simp add: item_replies_some [OF n rs ts])
next
  assume r: "list_all (readable item) comment_fields"
    and c: "json_path item [''snippet'', ''totalReplyCount''] = Inr (JInt n)"
    and n: "0 < n"
    and a: "absent item [''replies'']"
  show 1: "comment_item py_repr item cl = Inl (KeyError ''replies'')"
    unfolding comment_item_ok [OF r] c by (simp add: item_replies_absent [OF n a])
  from 1 show "comment_items py_repr (item # items) cl = Inl (KeyError ''replies'')" by simp
qed

lemmas thread_demo_defs = thread_with_replies_def thread_without_replies_def comment_thread_def
  reply_item_def

theorem replies_of_thread_witness:
  "list_all (readable (thread_without_replies 0)) comment_fields \<and>
   list_all (readable (thread_with_replies 0)) comment_fields \<and>
   list_all (readable (thread_with_replies 2)) comment_fields \<and>
   list_all (readable (thread_without_replies 2)) comment_fields \<and>
   json_path (thread_with_replies 2) [''replies'', ''comments''] =
     Inr (JList [reply_item ''r1'', reply_item ''r2'']) \<and>
   absent (thread_without_replies 2) [''replies''] \<and>
   (\<exists>cl'. comment_item no_repr (thread_without_replies 0) no_comments = Inr cl' \<and>
          replies cl' = [JList []]) \<and>
   (\<exists>cl'. comment_item no_repr (thread_with_replies 0) no_comments = Inr cl' \<and>
          replies cl' = [JList []]) \<and>
   (\<exists>cl'. comment_item no_repr (thread_with_replies 2) no_comments = Inr cl' \<and>
          replies cl' = [JList [JStr ''r1'', JStr ''r2'']]) \<and>
   comment_item no_repr (thread_without_replies 2) no_comments = Inl (KeyError ''replies'') \<and>
   comment_items no_repr [thread_without_replies 2, thread_with_replies 2] no_comments =
     Inl (KeyError ''replies'')"
proof -
  have 1: "list_all (readable (thread_without_replies k)) comment_fields" for k
    by (simp add: thread_demo_defs readable_def comment_fields_def)
  have 2: "list_all (readable (thread_with_replies k)) comment_fields" for k
    by (simp add: thread_demo_defs readable_def comment_fields_def)
  have 3: "json_path (thread_without_replies k) [''snippet'', ''totalReplyCount''] = Inr (JInt k)" for k
    by (simp add: thread_demo_defs)
  have 4: "json_path (thread_with_replies k) [''snippet'', ''totalReplyCount''] = Inr (JInt k)" for k
    by (simp add: thread_demo_defs)
  have 5: "json_path (thread_with_replies k) [''replies'', ''comments''] =
     Inr (JList [reply_item ''r1'', reply_item ''r2''])" for k
    by (simp add: thread_with_replies_def comment_thread_def)
  have 6: "json_path (reply_item t) [''snippet'', ''textDisplay''] = Inr (JStr t)" for t
    by (simp add: reply_item_def)
  have 7: "absent (thread_without_replies k) [''replies'']" for k
    by (simp add: thread_demo_defs absent_def)
  have 8: "replies no_comments = []" by (simp add: no_comments_def)
  from replies_of_thread [of "thread_without_replies 0" 0 no_repr no_comments
      "[]" "[]" "[]"]
    replies_of_thread [of "thread_with_replies 0" 0 no_repr no_comments
      "[]" "[]" "[]"]
    replies_of_thread [of "thread_with_replies 2" 2 no_repr no_comments
      "[reply_item ''r1'', reply_item ''r2'']" "[JStr ''r1'', JStr ''r2'']" "[]"]
    replies_of_thread [of "thread_without_replies 2" 2 no_repr no_comments
      "[]" "[]" "[thread_with_replies 2]"]
  show ?thesis
    by (simp add: 1 2 3 4 5 6 7 8 del: json_path.simps)
qed

theorem thread_without_reply_data_raises:
  "comment_batch_data no_repr (items_page [thread_without_replies 2]) = Inl (KeyError ''replies'') \<and>
   fetch_comment_batch demo_polars
     (mock_api (\<lambda>rs kwargs. [Inr (items_page [thread_without_replies 2])])) no_repr [JStr ''t1''] =
     (Inl (KeyError ''replies''),
      [Execute (CommentThreads, [(''part'', JStr ''snippet,replies''), (''id'', JStr ''t1''),
         (''maxResults'', JInt 50)], 0)])"
  by (simp add: thread_without_replies_def comment_thread_def items_page_def flatten_defs
      fetch_comment_batch_def py_join_def mock_api_def comment_batch_request_def)

end
